theory Spec2Isabelle
  imports Complex_Main
begin

section \<open>The metrics recorder of pkg/prommetrics\<close>

text \<open>
  The package keeps fifteen process-wide metric vectors and offers plain functions that
  update them. The Go functions return nothing; what they do is mutate the vectors, write
  to the log, or panic. In the embedding each function takes the state of the package and
  returns either the panic (\<open>Inl\<close>) or the state after the call (\<open>Inr\<close>).

  A Go \<open>string\<close> is a sequence of bytes, and so is a \<^typ>\<open>string\<close> here (a \<^typ>\<open>char\<close>
  is one byte). A \<open>float64\<close> is modelled as a \<^typ>\<open>real\<close>: the package only stores
  the numbers it is given and adds or subtracts one, which is exact on a float below 2^53 in
  absolute value; rounding beyond that, NaN and the infinities are outside the model. Go's
  \<open>int\<close> is an \<^typ>\<open>int\<close>: the package does no arithmetic on it.
\<close>

subsection \<open>What the package imports: strings and the Prometheus client\<close>

text \<open>
  \<open>utf8.ValidString\<close> of the Go standard library. A byte below 0x80 stands alone. A
  leading byte 0xC2..0xF4 announces a sequence of two to four bytes; the first continuation
  byte has a range that depends on the leading byte (this is what excludes over-long forms,
  surrogates and code points above U+10FFFF), the others lie in 0x80..0xBF. \<open>utf8_first\<close>
  is the table \<open>first\<close> joined with \<open>acceptRanges\<close>: the size of the sequence and the
  bounds of its second byte, or \<open>None\<close> for a byte that cannot lead.
\<close>

definition utf8_first :: "nat \<Rightarrow> (nat \<times> nat \<times> nat) option" where
  "utf8_first b =
     (if b < 0xC2 then None
      else if b \<le> 0xDF then Some (2, 0x80, 0xBF)
      else if b = 0xE0 then Some (3, 0xA0, 0xBF)
      else if b \<le> 0xEC then Some (3, 0x80, 0xBF)
      else if b = 0xED then Some (3, 0x80, 0x9F)
      else if b \<le> 0xEF then Some (3, 0x80, 0xBF)
      else if b = 0xF0 then Some (4, 0x90, 0xBF)
      else if b \<le> 0xF3 then Some (4, 0x80, 0xBF)
      else if b = 0xF4 then Some (4, 0x80, 0x8F)
      else None)"

definition utf8_cont :: "nat \<Rightarrow> bool" where
  "utf8_cont c = (0x80 \<le> c \<and> c \<le> 0xBF)"

fun utf8_valid_bytes :: "nat list \<Rightarrow> bool" where
  "utf8_valid_bytes [] = True"
| "utf8_valid_bytes (b # bs) =
     (if b < 0x80 then utf8_valid_bytes bs
      else (case utf8_first b of
              None \<Rightarrow> False
            | Some (n, lo, hi) \<Rightarrow>
                (if length bs < n - 1 then False
                 else if bs ! 0 < lo \<or> hi < bs ! 0 then False
                 else if n = 2 then utf8_valid_bytes (drop 1 bs)
                 else if \<not> utf8_cont (bs ! 1) then False
                 else if n = 3 then utf8_valid_bytes (drop 2 bs)
                 else if \<not> utf8_cont (bs ! 2) then False
                 else utf8_valid_bytes (drop 3 bs))))"

definition utf8_ValidString :: "string \<Rightarrow> bool" where
  "utf8_ValidString s = utf8_valid_bytes (map of_char s)"

text \<open>
  \<open>strconv.Itoa\<close>: the decimal digits of an integer, with a minus sign in front of a
  negative one.
\<close>

definition digit_char :: "nat \<Rightarrow> char" where
  "digit_char d = char_of (48 + d)"

fun nat_digits :: "nat \<Rightarrow> string" where
  "nat_digits n = (if n < 10 then [digit_char n] else nat_digits (n div 10) @ [digit_char (n mod 10)])"

declare nat_digits.simps [simp del]

definition Itoa :: "int \<Rightarrow> string" where
  "Itoa i = (if i < 0 then CHR ''-'' # nat_digits (nat (- i)) else nat_digits (nat i))"

text \<open>
  \<open>prometheus.Labels\<close> is a \<open>map[string]string\<close>. The package only builds label maps
  from literals with distinct keys, so a map is the list of its entries and \<open>len\<close> is the
  length of that list; \<open>None\<close> is the nil map, which Go reads as a map with no entry.
\<close>

type_synonym Labels = "(string \<times> string) list"

definition label_entries :: "Labels option \<Rightarrow> Labels" where
  "label_entries labels = (case labels of None \<Rightarrow> [] | Some es \<Rightarrow> es)"

text \<open>
  The errors with which the client library refuses a label tuple. The text of the error is
  not modelled, only its kind.
\<close>

datatype registry_error = ErrInconsistentCardinality | ErrInvalidUTF8 | ErrLabelMissing

datatype panic = Panic registry_error

text \<open>
  A metric vector (\<open>GaugeVec\<close>, \<open>CounterVec\<close>) with its data points: one value for each
  tuple of label values, in the order of the vector's variable labels. A tuple with no entry
  has no data point yet and is not exported. A counter counts in whole steps (the library
  keeps a counter that is only incremented in a 64-bit unsigned integer; its wrap-around
  after 2^64 increments is not modelled), a gauge holds a float.
\<close>

type_synonym 'v vec = "string list \<rightharpoonup> 'v"

type_synonym GaugeVec = "real vec"
type_synonym CounterVec = "nat vec"

text \<open>\<open>validateValuesInLabels\<close> and \<open>validateLabelValues\<close> of the client library.\<close>

definition validateValuesInLabels :: "Labels option \<Rightarrow> nat \<Rightarrow> registry_error option" where
  "validateValuesInLabels labels expected =
     (if length (label_entries labels) \<noteq> expected then Some ErrInconsistentCardinality
      else if list_ex (\<lambda>(name, val). \<not> utf8_ValidString val) (label_entries labels)
      then Some ErrInvalidUTF8
      else None)"

definition validateLabelValues :: "string list \<Rightarrow> nat \<Rightarrow> registry_error option" where
  "validateLabelValues vals expected =
     (if length vals \<noteq> expected then Some ErrInconsistentCardinality
      else if list_ex (\<lambda>val. \<not> utf8_ValidString val) vals then Some ErrInvalidUTF8
      else None)"

text \<open>
  The values of a label map in the order of the variable labels (what \<open>hashLabels\<close>
  walks through); a variable label with no entry in the map is an error.
\<close>

fun values_in_order :: "string list \<Rightarrow> Labels \<Rightarrow> registry_error + string list" where
  "values_in_order [] es = Inr []"
| "values_in_order (l # ls) es =
     (case map_of es l of
        None \<Rightarrow> Inl ErrLabelMissing
      | Some v \<Rightarrow> (case values_in_order ls es of Inl e \<Rightarrow> Inl e | Inr vs \<Rightarrow> Inr (v # vs)))"

text \<open>
  \<open>getOrCreateMetricWithLabels\<close>: the data point of a tuple, created at zero when the
  tuple has none.
\<close>

definition getOrCreateMetric :: "string list \<Rightarrow> ('v::zero) vec \<Rightarrow> 'v vec" where
  "getOrCreateMetric lvs v = (case v lvs of None \<Rightarrow> v(lvs \<mapsto> 0) | Some x \<Rightarrow> v)"

text \<open>
  \<open>GetMetricWith\<close> and \<open>GetMetricWithLabelValues\<close> return the data point (here: its
  tuple of label values, with the vector that now holds it) or an error, and then the vector
  is as it was. \<open>With\<close> and \<open>WithLabelValues\<close> panic where those return an error.
\<close>

definition GetMetricWith ::
  "string list \<Rightarrow> Labels option \<Rightarrow> ('v::zero) vec \<Rightarrow> registry_error + (string list \<times> 'v vec)" where
  "GetMetricWith variableLabels labels v =
     (case validateValuesInLabels labels (length variableLabels) of
        Some e \<Rightarrow> Inl e
      | None \<Rightarrow>
          (case values_in_order variableLabels (label_entries labels) of
             Inl e \<Rightarrow> Inl e
           | Inr lvs \<Rightarrow> Inr (lvs, getOrCreateMetric lvs v)))"

definition GetMetricWithLabelValues ::
  "string list \<Rightarrow> string list \<Rightarrow> ('v::zero) vec \<Rightarrow> registry_error + (string list \<times> 'v vec)" where
  "GetMetricWithLabelValues variableLabels lvs v =
     (case validateLabelValues lvs (length variableLabels) of
        Some e \<Rightarrow> Inl e
      | None \<Rightarrow> Inr (lvs, getOrCreateMetric lvs v))"

definition With ::
  "string list \<Rightarrow> Labels option \<Rightarrow> ('v::zero) vec \<Rightarrow> panic + (string list \<times> 'v vec)" where
  "With variableLabels labels v =
     (case GetMetricWith variableLabels labels v of Inl e \<Rightarrow> Inl (Panic e) | Inr m \<Rightarrow> Inr m)"

definition WithLabelValues ::
  "string list \<Rightarrow> string list \<Rightarrow> ('v::zero) vec \<Rightarrow> panic + (string list \<times> 'v vec)" where
  "WithLabelValues variableLabels lvs v =
     (case GetMetricWithLabelValues variableLabels lvs v of
        Inl e \<Rightarrow> Inl (Panic e)
      | Inr m \<Rightarrow> Inr m)"

text \<open>
  What a data point reads, and the methods of a data point: \<open>Set\<close>, \<open>Inc\<close> and \<open>Dec\<close>
  of a gauge, \<open>Inc\<close> of a counter.
\<close>

definition metric_value :: "('v::zero) vec \<Rightarrow> string list \<Rightarrow> 'v" where
  "metric_value v lvs = (case v lvs of None \<Rightarrow> 0 | Some x \<Rightarrow> x)"

definition gauge_Set :: "real \<Rightarrow> string list \<times> GaugeVec \<Rightarrow> GaugeVec" where
  "gauge_Set x m = (case m of (lvs, v) \<Rightarrow> v(lvs \<mapsto> x))"

definition gauge_Inc :: "string list \<times> GaugeVec \<Rightarrow> GaugeVec" where
  "gauge_Inc m = (case m of (lvs, v) \<Rightarrow> v(lvs \<mapsto> metric_value v lvs + 1))"

definition gauge_Dec :: "string list \<times> GaugeVec \<Rightarrow> GaugeVec" where
  "gauge_Dec m = (case m of (lvs, v) \<Rightarrow> v(lvs \<mapsto> metric_value v lvs - 1))"

definition counter_Inc :: "string list \<times> CounterVec \<Rightarrow> CounterVec" where
  "counter_Inc m = (case m of (lvs, v) \<Rightarrow> v(lvs \<mapsto> metric_value v lvs + 1))"

subsection \<open>The package: constants and state\<close>

definition ScaledObjectResource :: string where
  "ScaledObjectResource = ''scaled_object''"

definition ScaledJobResource :: string where
  "ScaledJobResource = ''scaled_job''"

definition scaledObjectMetricLabels :: "string list" where
  "scaledObjectMetricLabels = [''namespace'', ''metric'', ''scaledObject'', ''scaler'', ''scalerIndex'']"

definition scaledJobmetricLabels :: "string list" where
  "scaledJobmetricLabels = [''namespace'', ''metric'', ''scaledJob'', ''scaler'', ''scalerIndex'']"

text \<open>A Go \<open>error\<close> value; the nil error is \<open>None\<close>.\<close>

datatype go_error = GoError string

text \<open>
  The package-level variables, and the log: each entry is the error handed to
  \<open>log.Error\<close> with its message.
\<close>

record metrics =
  buildInfo :: GaugeVec
  scalerErrorsTotal :: CounterVec
  scaledObjectScalerMetricsValue :: GaugeVec
  scaledJobScalerMetricsValue :: GaugeVec
  scaledObjectScalerMetricsLatency :: GaugeVec
  scaledJobScalerMetricsLatency :: GaugeVec
  scaledObjectScalerActive :: GaugeVec
  scaledJobScalerActive :: GaugeVec
  scaledObjectScalerErrors :: CounterVec
  scaledJobScalerErrors :: CounterVec
  scaledObjectErrors :: CounterVec
  scaledJobErrors :: CounterVec
  triggerTotalsGaugeVec :: GaugeVec
  crdTotalsGaugeVec :: GaugeVec
  internalLoopLatency :: GaugeVec
  logged :: "(registry_error \<times> string) list"

definition log_Error :: "registry_error \<Rightarrow> string \<Rightarrow> metrics \<Rightarrow> metrics" where
  "log_Error e msg s = s\<lparr>logged := logged s @ [(e, msg)]\<rparr>"

definition unable_to_write :: string where
  "unable_to_write = ''Unable to write to metrics to Prometheus Server: %v''"

text \<open>The vectors as they are registered: no data point anywhere, nothing logged.\<close>

definition registered :: metrics where
  "registered =
     \<lparr>buildInfo = Map.empty, scalerErrorsTotal = Map.empty,
      scaledObjectScalerMetricsValue = Map.empty, scaledJobScalerMetricsValue = Map.empty,
      scaledObjectScalerMetricsLatency = Map.empty, scaledJobScalerMetricsLatency = Map.empty,
      scaledObjectScalerActive = Map.empty, scaledJobScalerActive = Map.empty,
      scaledObjectScalerErrors = Map.empty, scaledJobScalerErrors = Map.empty,
      scaledObjectErrors = Map.empty, scaledJobErrors = Map.empty,
      triggerTotalsGaugeVec = Map.empty, crdTotalsGaugeVec = Map.empty,
      internalLoopLatency = Map.empty, logged = []\<rparr>"

text \<open>Sequencing two calls: a panic of the first ends the run.\<close>

definition and_then :: "panic + 'a \<Rightarrow> ('a \<Rightarrow> panic + 'b) \<Rightarrow> panic + 'b" where
  "and_then r f = (case r of Inl p \<Rightarrow> Inl p | Inr x \<Rightarrow> f x)"

subsection \<open>The package: functions\<close>

definition getLabels ::
  "string \<Rightarrow> string \<Rightarrow> string \<Rightarrow> int \<Rightarrow> string \<Rightarrow> string \<Rightarrow> panic + Labels option" where
  "getLabels namespace scaledResource scaler scalerIndex metric resourceType =
     (if resourceType = ScaledObjectResource then
        Inr (Some [(''namespace'', namespace), (''scaledObject'', scaledResource),
                   (''scaler'', scaler), (''scalerIndex'', Itoa scalerIndex), (''metric'', metric)])
      else if resourceType = ScaledJobResource then
        Inr (Some [(''namespace'', namespace), (''scaledJob'', scaledResource),
                   (''scaler'', scaler), (''scalerIndex'', Itoa scalerIndex), (''metric'', metric)])
      else Inr None)"

definition RecordScalerMetric ::
  "string \<Rightarrow> string \<Rightarrow> string \<Rightarrow> int \<Rightarrow> string \<Rightarrow> real \<Rightarrow> string \<Rightarrow> metrics \<Rightarrow> panic + metrics" where
  "RecordScalerMetric namespace scaledResource scaler scalerIndex metric val resourceType s =
     and_then (getLabels namespace scaledResource scaler scalerIndex metric resourceType) (\<lambda>labels.
       if resourceType = ScaledObjectResource then
         and_then (With scaledObjectMetricLabels labels (scaledObjectScalerMetricsValue s)) (\<lambda>m.
           Inr (s\<lparr>scaledObjectScalerMetricsValue := gauge_Set val m\<rparr>))
       else if resourceType = ScaledJobResource then
         and_then (With scaledJobmetricLabels labels (scaledJobScalerMetricsValue s)) (\<lambda>m.
           Inr (s\<lparr>scaledJobScalerMetricsValue := gauge_Set val m\<rparr>))
       else Inr s)"

definition RecordScalerLatency ::
  "string \<Rightarrow> string \<Rightarrow> string \<Rightarrow> int \<Rightarrow> string \<Rightarrow> real \<Rightarrow> string \<Rightarrow> metrics \<Rightarrow> panic + metrics" where
  "RecordScalerLatency namespace scaledResource scaler scalerIndex metric val resourceType s =
     and_then (getLabels namespace scaledResource scaler scalerIndex metric resourceType) (\<lambda>labels.
       if resourceType = ScaledObjectResource then
         and_then (With scaledObjectMetricLabels labels (scaledObjectScalerMetricsLatency s)) (\<lambda>m.
           Inr (s\<lparr>scaledObjectScalerMetricsLatency := gauge_Set val m\<rparr>))
       else if resourceType = ScaledJobResource then
         and_then (With scaledJobmetricLabels labels (scaledJobScalerMetricsLatency s)) (\<lambda>m.
           Inr (s\<lparr>scaledJobScalerMetricsLatency := gauge_Set val m\<rparr>))
       else Inr s)"

definition RecordScalableObjectLatency ::
  "string \<Rightarrow> string \<Rightarrow> bool \<Rightarrow> real \<Rightarrow> metrics \<Rightarrow> panic + metrics" where
  "RecordScalableObjectLatency namespace name isScaledObject val s =
     (let resourceType = (if isScaledObject then ''scaledobject'' else ''scaledjob'') in
      and_then (WithLabelValues [''namespace'', ''type'', ''resource'']
                  [namespace, resourceType, name] (internalLoopLatency s)) (\<lambda>m.
        Inr (s\<lparr>internalLoopLatency := gauge_Set val m\<rparr>)))"

definition RecordScalerActive ::
  "string \<Rightarrow> string \<Rightarrow> string \<Rightarrow> int \<Rightarrow> string \<Rightarrow> bool \<Rightarrow> string \<Rightarrow> metrics \<Rightarrow> panic + metrics" where
  "RecordScalerActive namespace scaledResource scaler scalerIndex metric active resourceType s =
     (let activeVal = (if active then 1 else 0 :: int) in
      and_then (getLabels namespace scaledResource scaler scalerIndex metric resourceType) (\<lambda>labels.
        if resourceType = ScaledObjectResource then
          and_then (With scaledObjectMetricLabels labels (scaledObjectScalerActive s)) (\<lambda>m.
            Inr (s\<lparr>scaledObjectScalerActive := gauge_Set (of_int activeVal) m\<rparr>))
        else if resourceType = ScaledJobResource then
          and_then (With scaledJobmetricLabels labels (scaledJobScalerActive s)) (\<lambda>m.
            Inr (s\<lparr>scaledJobScalerActive := gauge_Set (of_int activeVal) m\<rparr>))
        else Inr s))"

definition RecordScaledObjectError ::
  "string \<Rightarrow> string \<Rightarrow> go_error option \<Rightarrow> string \<Rightarrow> metrics \<Rightarrow> panic + metrics" where
  "RecordScaledObjectError namespace scaledResource err resourceType s =
     (if resourceType = ScaledObjectResource then
        (let labels = Some [(''namespace'', namespace), (''scaledObject'', scaledResource)] in
         if err \<noteq> None then
           and_then (With [''namespace'', ''scaledObject''] labels (scaledObjectErrors s)) (\<lambda>m.
             Inr (s\<lparr>scaledObjectErrors := counter_Inc m\<rparr>))
         else
           (case GetMetricWith [''namespace'', ''scaledObject''] labels (scaledObjectErrors s) of
              Inl errScaledObject \<Rightarrow> Inr (log_Error errScaledObject unable_to_write s)
            | Inr m \<Rightarrow> Inr (s\<lparr>scaledObjectErrors := snd m\<rparr>)))
      else if resourceType = ScaledJobResource then
        (let labels = Some [(''namespace'', namespace), (''scaledJob'', scaledResource)] in
         if err \<noteq> None then
           and_then (With [''namespace'', ''scaledJob''] labels (scaledJobErrors s)) (\<lambda>m.
             Inr (s\<lparr>scaledJobErrors := counter_Inc m\<rparr>))
         else
           (case GetMetricWith [''namespace'', ''scaledJob''] labels (scaledJobErrors s) of
              Inl errScaledJob \<Rightarrow> Inr (log_Error errScaledJob unable_to_write s)
            | Inr m \<Rightarrow> Inr (s\<lparr>scaledJobErrors := snd m\<rparr>)))
      else Inr s)"

definition RecordScalerError ::
  "string \<Rightarrow> string \<Rightarrow> string \<Rightarrow> int \<Rightarrow> string \<Rightarrow> go_error option \<Rightarrow> string \<Rightarrow> metrics
     \<Rightarrow> panic + metrics" where
  "RecordScalerError namespace scaledResource scaler scalerIndex metric err resourceType s =
     and_then (getLabels namespace scaledResource scaler scalerIndex metric resourceType) (\<lambda>labels.
       if resourceType = ScaledObjectResource then
         (if err \<noteq> None then
            and_then (With scaledObjectMetricLabels labels (scaledObjectScalerErrors s)) (\<lambda>m.
            and_then (RecordScaledObjectError namespace scaledResource err resourceType
                        (s\<lparr>scaledObjectScalerErrors := counter_Inc m\<rparr>)) (\<lambda>s1.
            and_then (With [] (Some []) (scalerErrorsTotal s1)) (\<lambda>t.
              Inr (s1\<lparr>scalerErrorsTotal := counter_Inc t\<rparr>))))
          else
            (case GetMetricWith scaledObjectMetricLabels labels (scaledObjectScalerErrors s) of
               Inl errScaler \<Rightarrow> Inr (log_Error errScaler unable_to_write s)
             | Inr m \<Rightarrow> Inr (s\<lparr>scaledObjectScalerErrors := snd m\<rparr>)))
       else if resourceType = ScaledJobResource then
         (if err \<noteq> None then
            and_then (With scaledJobmetricLabels labels (scaledJobScalerErrors s)) (\<lambda>m.
            and_then (RecordScaledObjectError namespace scaledResource err resourceType
                        (s\<lparr>scaledJobScalerErrors := counter_Inc m\<rparr>)) (\<lambda>s1.
            and_then (With [] (Some []) (scalerErrorsTotal s1)) (\<lambda>t.
              Inr (s1\<lparr>scalerErrorsTotal := counter_Inc t\<rparr>))))
          else
            (case GetMetricWith scaledJobmetricLabels labels (scaledJobScalerErrors s) of
               Inl errScaler \<Rightarrow> Inr (log_Error errScaler unable_to_write s)
             | Inr m \<Rightarrow> Inr (s\<lparr>scaledJobScalerErrors := snd m\<rparr>)))
       else Inr s)"

text \<open>
  \<open>RecordBuildInfo\<close> labels its gauge with version.Version, version.GitCommit,
  runtime.Version(), runtime.GOOS and runtime.GOARCH, which are not part of the package:
  they are parameters here.
\<close>

definition RecordBuildInfo ::
  "string \<Rightarrow> string \<Rightarrow> string \<Rightarrow> string \<Rightarrow> string \<Rightarrow> metrics \<Rightarrow> panic + metrics" where
  "RecordBuildInfo version gitCommit goVersion goos goarch s =
     and_then (WithLabelValues [''version'', ''git_commit'', ''goversion'', ''goos'', ''goarch'']
                 [version, gitCommit, goVersion, goos, goarch] (buildInfo s)) (\<lambda>m.
       Inr (s\<lparr>buildInfo := gauge_Set 1 m\<rparr>))"

text \<open>
  \<open>init\<close> registers the fifteen vectors (their names differ, so \<open>MustRegister\<close> does
  not panic) and records the build information.
\<close>

definition init :: "string \<Rightarrow> string \<Rightarrow> string \<Rightarrow> string \<Rightarrow> string \<Rightarrow> panic + metrics" where
  "init version gitCommit goVersion goos goarch =
     RecordBuildInfo version gitCommit goVersion goos goarch registered"

definition IncrementTriggerTotal :: "string \<Rightarrow> metrics \<Rightarrow> panic + metrics" where
  "IncrementTriggerTotal triggerType s =
     (if triggerType \<noteq> '''' then
        and_then (WithLabelValues [''type''] [triggerType] (triggerTotalsGaugeVec s)) (\<lambda>m.
          Inr (s\<lparr>triggerTotalsGaugeVec := gauge_Inc m\<rparr>))
      else Inr s)"

definition DecrementTriggerTotal :: "string \<Rightarrow> metrics \<Rightarrow> panic + metrics" where
  "DecrementTriggerTotal triggerType s =
     (if triggerType \<noteq> '''' then
        and_then (WithLabelValues [''type''] [triggerType] (triggerTotalsGaugeVec s)) (\<lambda>m.
          Inr (s\<lparr>triggerTotalsGaugeVec := gauge_Dec m\<rparr>))
      else Inr s)"

definition IncrementCRDTotal :: "string \<Rightarrow> string \<Rightarrow> metrics \<Rightarrow> panic + metrics" where
  "IncrementCRDTotal crdType namespace s =
     (let namespace = (if namespace = '''' then ''default'' else namespace) in
      and_then (WithLabelValues [''type'', ''namespace''] [crdType, namespace] (crdTotalsGaugeVec s)) (\<lambda>m.
        Inr (s\<lparr>crdTotalsGaugeVec := gauge_Inc m\<rparr>)))"

definition DecrementCRDTotal :: "string \<Rightarrow> string \<Rightarrow> metrics \<Rightarrow> panic + metrics" where
  "DecrementCRDTotal crdType namespace s =
     (let namespace = (if namespace = '''' then ''default'' else namespace) in
      and_then (WithLabelValues [''type'', ''namespace''] [crdType, namespace] (crdTotalsGaugeVec s)) (\<lambda>m.
        Inr (s\<lparr>crdTotalsGaugeVec := gauge_Dec m\<rparr>)))"

text \<open>Calling a recording function \<open>k\<close> times in a row.\<close>

fun repeat_call :: "nat \<Rightarrow> (metrics \<Rightarrow> panic + metrics) \<Rightarrow> metrics \<Rightarrow> panic + metrics" where
  "repeat_call 0 f s = Inr s"
| "repeat_call (Suc k) f s = and_then (f s) (repeat_call k f)"

text \<open>A call returns when it does not panic.\<close>

definition returns :: "panic + metrics \<Rightarrow> bool" where
  "returns r = (case r of Inl p \<Rightarrow> False | Inr s \<Rightarrow> True)"

text \<open>
  A label tuple is valid when the client library accepts it: every label value is valid
  UTF-8. (The scaler index is rendered by \<open>strconv.Itoa\<close>, which only writes ASCII.)
\<close>

definition valid_label_tuple :: "string \<Rightarrow> string \<Rightarrow> string \<Rightarrow> string \<Rightarrow> bool" where
  "valid_label_tuple namespace scaledResource scaler metric =
     (utf8_ValidString namespace \<and> utf8_ValidString scaledResource \<and>
      utf8_ValidString scaler \<and> utf8_ValidString metric)"

section \<open>Properties\<close>

subsection \<open>The imported functions on the label maps of the package\<close>

lemma utf8_valid_ascii: "\<forall>b\<in>set bs. b < 128 \<Longrightarrow> utf8_valid_bytes bs"
  by (induction bs) auto

lemma digit_char_ascii: "d < 10 \<Longrightarrow> of_char (digit_char d) < (128::nat)"
  by (simp add: digit_char_def)

lemma nat_digits_ascii: "\<forall>c\<in>set (nat_digits n). of_char c < (128::nat)"
proof (induction n rule: nat_digits.induct)
  case (1 n)
  show ?case
  proof (cases "n < 10")
    case True
    then show ?thesis by (subst nat_digits.simps) (simp add: digit_char_ascii)
  next
    case False
    with 1 show ?thesis by (subst nat_digits.simps) (simp add: digit_char_ascii)
  qed
qed

lemma Itoa_valid: "utf8_ValidString (Itoa i)"
  unfolding utf8_ValidString_def
  by (rule utf8_valid_ascii) (use nat_digits_ascii in \<open>auto simp: Itoa_def\<close>)

lemma GetMetricWith_scaledObject:
  "GetMetricWith scaledObjectMetricLabels
     (Some [(''namespace'', ns), (''scaledObject'', res), (''scaler'', sc),
            (''scalerIndex'', Itoa i), (''metric'', m)]) v =
   (if valid_label_tuple ns res sc m
    then Inr ([ns, m, res, sc, Itoa i], getOrCreateMetric [ns, m, res, sc, Itoa i] v)
    else Inl ErrInvalidUTF8)"
  by (simp add: GetMetricWith_def validateValuesInLabels_def label_entries_def
      scaledObjectMetricLabels_def valid_label_tuple_def Itoa_valid)

lemma GetMetricWith_scaledJob:
  "GetMetricWith scaledJobmetricLabels
     (Some [(''namespace'', ns), (''scaledJob'', res), (''scaler'', sc),
            (''scalerIndex'', Itoa i), (''metric'', m)]) v =
   (if valid_label_tuple ns res sc m
    then Inr ([ns, m, res, sc, Itoa i], getOrCreateMetric [ns, m, res, sc, Itoa i] v)
    else Inl ErrInvalidUTF8)"
  by (simp add: GetMetricWith_def validateValuesInLabels_def label_entries_def
      scaledJobmetricLabels_def valid_label_tuple_def Itoa_valid)

lemma GetMetricWith_resource:
  "GetMetricWith [''namespace'', ''scaledObject'']
     (Some [(''namespace'', ns), (''scaledObject'', res)]) v =
   (if utf8_ValidString ns \<and> utf8_ValidString res
    then Inr ([ns, res], getOrCreateMetric [ns, res] v) else Inl ErrInvalidUTF8)"
  "GetMetricWith [''namespace'', ''scaledJob'']
     (Some [(''namespace'', ns), (''scaledJob'', res)]) v =
   (if utf8_ValidString ns \<and> utf8_ValidString res
    then Inr ([ns, res], getOrCreateMetric [ns, res] v) else Inl ErrInvalidUTF8)"
  by (simp_all add: GetMetricWith_def validateValuesInLabels_def label_entries_def)

lemma GetMetricWith_no_labels:
  "GetMetricWith [] (Some []) v = Inr ([], getOrCreateMetric [] v)"
  by (simp add: GetMetricWith_def validateValuesInLabels_def label_entries_def)

lemma counter_Inc_created:
  "counter_Inc (lvs, getOrCreateMetric lvs v) = v(lvs \<mapsto> metric_value v lvs + 1)"
  by (auto simp: counter_Inc_def getOrCreateMetric_def metric_value_def split: option.splits)

lemma gauge_Set_created: "gauge_Set x (lvs, getOrCreateMetric lvs v) = v(lvs \<mapsto> x)"
  by (auto simp: gauge_Set_def getOrCreateMetric_def split: option.splits)

lemma gauge_Inc_created:
  "gauge_Inc (lvs, getOrCreateMetric lvs v) = v(lvs \<mapsto> metric_value v lvs + 1)"
  by (auto simp: gauge_Inc_def getOrCreateMetric_def metric_value_def split: option.splits)

lemma gauge_Dec_created:
  "gauge_Dec (lvs, getOrCreateMetric lvs v) = v(lvs \<mapsto> metric_value v lvs - 1)"
  by (auto simp: gauge_Dec_def getOrCreateMetric_def metric_value_def split: option.splits)

lemma known_kinds_differ:
  "ScaledJobResource \<noteq> ScaledObjectResource" "ScaledObjectResource \<noteq> ScaledJobResource"
  by (simp_all add: ScaledJobResource_def ScaledObjectResource_def)

lemma RecordScaledObjectError_object:
  "utf8_ValidString ns \<Longrightarrow> utf8_ValidString res \<Longrightarrow>
   RecordScaledObjectError ns res (Some e) ScaledObjectResource s =
     Inr (s\<lparr>scaledObjectErrors :=
            (scaledObjectErrors s)([ns, res] \<mapsto> metric_value (scaledObjectErrors s) [ns, res] + 1)\<rparr>)"
  by (simp add: RecordScaledObjectError_def With_def GetMetricWith_resource and_then_def
      counter_Inc_created)

lemma RecordScaledObjectError_job:
  "utf8_ValidString ns \<Longrightarrow> utf8_ValidString res \<Longrightarrow>
   RecordScaledObjectError ns res (Some e) ScaledJobResource s =
     Inr (s\<lparr>scaledJobErrors :=
            (scaledJobErrors s)([ns, res] \<mapsto> metric_value (scaledJobErrors s) [ns, res] + 1)\<rparr>)"
  by (simp add: RecordScaledObjectError_def With_def GetMetricWith_resource and_then_def
      counter_Inc_created known_kinds_differ)

lemma RecordScalerError_object:
  assumes "valid_label_tuple ns res sc m"
  shows "RecordScalerError ns res sc i m (Some e) ScaledObjectResource s =
     Inr (s\<lparr>scaledObjectScalerErrors :=
              (scaledObjectScalerErrors s)([ns, m, res, sc, Itoa i] \<mapsto>
                 metric_value (scaledObjectScalerErrors s) [ns, m, res, sc, Itoa i] + 1),
            scaledObjectErrors :=
              (scaledObjectErrors s)([ns, res] \<mapsto> metric_value (scaledObjectErrors s) [ns, res] + 1),
            scalerErrorsTotal :=
              (scalerErrorsTotal s)([] \<mapsto> metric_value (scalerErrorsTotal s) [] + 1)\<rparr>)"
proof -
  from assms have v: "utf8_ValidString ns" "utf8_ValidString res"
    by (simp_all add: valid_label_tuple_def)
  show ?thesis
    using assms
    by (simp add: RecordScalerError_def getLabels_def With_def GetMetricWith_scaledObject
        GetMetricWith_no_labels and_then_def counter_Inc_created
        RecordScaledObjectError_object [OF v])
qed

lemma RecordScalerError_job:
  assumes "valid_label_tuple ns res sc m"
  shows "RecordScalerError ns res sc i m (Some e) ScaledJobResource s =
     Inr (s\<lparr>scaledJobScalerErrors :=
              (scaledJobScalerErrors s)([ns, m, res, sc, Itoa i] \<mapsto>
                 metric_value (scaledJobScalerErrors s) [ns, m, res, sc, Itoa i] + 1),
            scaledJobErrors :=
              (scaledJobErrors s)([ns, res] \<mapsto> metric_value (scaledJobErrors s) [ns, res] + 1),
            scalerErrorsTotal :=
              (scalerErrorsTotal s)([] \<mapsto> metric_value (scalerErrorsTotal s) [] + 1)\<rparr>)"
proof -
  from assms have v: "utf8_ValidString ns" "utf8_ValidString res"
    by (simp_all add: valid_label_tuple_def)
  show ?thesis
    using assms
    by (simp add: RecordScalerError_def getLabels_def With_def GetMetricWith_scaledJob
        GetMetricWith_no_labels and_then_def counter_Inc_created known_kinds_differ
        RecordScaledObjectError_job [OF v])
qed

subsection \<open>Recording scaler errors\<close>

lemma Itoa_0: "Itoa 0 = ''0''"
  by code_simp

lemma valid_scenario_tuple: "valid_label_tuple ''ns1'' ''obj1'' ''scaler-a'' ''queueLength''"
  by (simp add: valid_label_tuple_def utf8_ValidString_def)

lemma metric_value_registered:
  "metric_value (scaledObjectScalerErrors registered) lvs = 0"
  "metric_value (scaledJobScalerErrors registered) lvs = 0"
  "metric_value (scaledObjectErrors registered) lvs = 0"
  "metric_value (scaledJobErrors registered) lvs = 0"
  "metric_value (scalerErrorsTotal registered) lvs = 0"
  by (simp_all add: metric_value_def registered_def)

lemma metric_value_upd: "metric_value (v(lvs \<mapsto> x)) lvs = x"
  by (simp add: metric_value_def)

lemma repeat_RecordScalerError_object:
  assumes "valid_label_tuple ns res sc m"
  shows "\<exists>s'. repeat_call k (RecordScalerError ns res sc i m (Some e) ScaledObjectResource) s = Inr s' \<and>
           metric_value (scaledObjectScalerErrors s') [ns, m, res, sc, Itoa i] =
             metric_value (scaledObjectScalerErrors s) [ns, m, res, sc, Itoa i] + k \<and>
           metric_value (scaledObjectErrors s') [ns, res] =
             metric_value (scaledObjectErrors s) [ns, res] + k \<and>
           metric_value (scalerErrorsTotal s') [] = metric_value (scalerErrorsTotal s) [] + k"
proof (induction k arbitrary: s)
  case 0
  show ?case by simp
next
  case (Suc k)
  let ?s1 = "s\<lparr>scaledObjectScalerErrors :=
              (scaledObjectScalerErrors s)([ns, m, res, sc, Itoa i] \<mapsto>
                 metric_value (scaledObjectScalerErrors s) [ns, m, res, sc, Itoa i] + 1),
            scaledObjectErrors :=
              (scaledObjectErrors s)([ns, res] \<mapsto> metric_value (scaledObjectErrors s) [ns, res] + 1),
            scalerErrorsTotal :=
              (scalerErrorsTotal s)([] \<mapsto> metric_value (scalerErrorsTotal s) [] + 1)\<rparr>"
  from Suc.IH [of ?s1] obtain s' where
    r: "repeat_call k (RecordScalerError ns res sc i m (Some e) ScaledObjectResource) ?s1 = Inr s'"
    and a: "metric_value (scaledObjectScalerErrors s') [ns, m, res, sc, Itoa i] =
             metric_value (scaledObjectScalerErrors ?s1) [ns, m, res, sc, Itoa i] + k"
    and b: "metric_value (scaledObjectErrors s') [ns, res] =
             metric_value (scaledObjectErrors ?s1) [ns, res] + k"
    and c: "metric_value (scalerErrorsTotal s') [] = metric_value (scalerErrorsTotal ?s1) [] + k"
    by blast
  have "repeat_call (Suc k) (RecordScalerError ns res sc i m (Some e) ScaledObjectResource) s = Inr s'"
    using r by (simp add: RecordScalerError_object [OF assms] and_then_def)
  moreover from a have "metric_value (scaledObjectScalerErrors s') [ns, m, res, sc, Itoa i] =
             metric_value (scaledObjectScalerErrors s) [ns, m, res, sc, Itoa i] + Suc k"
    by (simp add: metric_value_upd)
  moreover from b have "metric_value (scaledObjectErrors s') [ns, res] =
             metric_value (scaledObjectErrors s) [ns, res] + Suc k"
    by (simp add: metric_value_upd)
  moreover from c have "metric_value (scalerErrorsTotal s') [] = metric_value (scalerErrorsTotal s) [] + Suc k"
    by (simp add: metric_value_upd)
  ultimately show ?case by blast
qed

lemma repeat_RecordScalerError_job:
  assumes "valid_label_tuple ns res sc m"
  shows "\<exists>s'. repeat_call k (RecordScalerError ns res sc i m (Some e) ScaledJobResource) s = Inr s' \<and>
           metric_value (scaledJobScalerErrors s') [ns, m, res, sc, Itoa i] =
             metric_value (scaledJobScalerErrors s) [ns, m, res, sc, Itoa i] + k \<and>
           metric_value (scaledJobErrors s') [ns, res] =
             metric_value (scaledJobErrors s) [ns, res] + k \<and>
           metric_value (scalerErrorsTotal s') [] = metric_value (scalerErrorsTotal s) [] + k"
proof (induction k arbitrary: s)
  case 0
  show ?case by simp
next
  case (Suc k)
  let ?s1 = "s\<lparr>scaledJobScalerErrors :=
              (scaledJobScalerErrors s)([ns, m, res, sc, Itoa i] \<mapsto>
                 metric_value (scaledJobScalerErrors s) [ns, m, res, sc, Itoa i] + 1),
            scaledJobErrors :=
              (scaledJobErrors s)([ns, res] \<mapsto> metric_value (scaledJobErrors s) [ns, res] + 1),
            scalerErrorsTotal :=
              (scalerErrorsTotal s)([] \<mapsto> metric_value (scalerErrorsTotal s) [] + 1)\<rparr>"
  from Suc.IH [of ?s1] obtain s' where
    r: "repeat_call k (RecordScalerError ns res sc i m (Some e) ScaledJobResource) ?s1 = Inr s'"
    and a: "metric_value (scaledJobScalerErrors s') [ns, m, res, sc, Itoa i] =
             metric_value (scaledJobScalerErrors ?s1) [ns, m, res, sc, Itoa i] + k"
    and b: "metric_value (scaledJobErrors s') [ns, res] =
             metric_value (scaledJobErrors ?s1) [ns, res] + k"
    and c: "metric_value (scalerErrorsTotal s') [] = metric_value (scalerErrorsTotal ?s1) [] + k"
    by blast
  have "repeat_call (Suc k) (RecordScalerError ns res sc i m (Some e) ScaledJobResource) s = Inr s'"
    using r by (simp add: RecordScalerError_job [OF assms] and_then_def)
  moreover from a have "metric_value (scaledJobScalerErrors s') [ns, m, res, sc, Itoa i] =
             metric_value (scaledJobScalerErrors s) [ns, m, res, sc, Itoa i] + Suc k"
    by (simp add: metric_value_upd)
  moreover from b have "metric_value (scaledJobErrors s') [ns, res] =
             metric_value (scaledJobErrors s) [ns, res] + Suc k"
    by (simp add: metric_value_upd)
  moreover from c have "metric_value (scalerErrorsTotal s') [] = metric_value (scalerErrorsTotal s) [] + Suc k"
    by (simp add: metric_value_upd)
  ultimately show ?case by blast
qed

text \<open>
  Claim C1. For a valid label tuple and either of the two resource kinds, \<open>k\<close> calls
  of \<open>RecordScalerError\<close> with a non-nil error all return, and together they raise by
  exactly \<open>k\<close> the per-scaler error counter at the tuple, the resource-level error
  counter at (namespace, resource name) (the scaled-job one for the kind scaled_job, through
  \<open>RecordScaledObjectError\<close>), and the global counter of scaler errors.
\<close>

theorem RecordScalerError_counts:
  assumes "valid_label_tuple namespace scaledResource scaler metric"
    and "resourceType = ScaledObjectResource \<or> resourceType = ScaledJobResource"
  shows "\<exists>s'. repeat_call k (RecordScalerError namespace scaledResource scaler scalerIndex metric
                   (Some e) resourceType) s = Inr s' \<and>
           (resourceType = ScaledObjectResource \<longrightarrow>
              metric_value (scaledObjectScalerErrors s')
                  [namespace, metric, scaledResource, scaler, Itoa scalerIndex] =
                metric_value (scaledObjectScalerErrors s)
                  [namespace, metric, scaledResource, scaler, Itoa scalerIndex] + k \<and>
              metric_value (scaledObjectErrors s') [namespace, scaledResource] =
                metric_value (scaledObjectErrors s) [namespace, scaledResource] + k) \<and>
           (resourceType = ScaledJobResource \<longrightarrow>
              metric_value (scaledJobScalerErrors s')
                  [namespace, metric, scaledResource, scaler, Itoa scalerIndex] =
                metric_value (scaledJobScalerErrors s)
                  [namespace, metric, scaledResource, scaler, Itoa scalerIndex] + k \<and>
              metric_value (scaledJobErrors s') [namespace, scaledResource] =
                metric_value (scaledJobErrors s) [namespace, scaledResource] + k) \<and>
           metric_value (scalerErrorsTotal s') [] = metric_value (scalerErrorsTotal s) [] + k"
proof (cases "resourceType = ScaledObjectResource")
  case True
  with repeat_RecordScalerError_object [OF assms(1), of k scalerIndex e s] show ?thesis
    by (auto simp: known_kinds_differ)
next
  case False
  with assms(2) have j: "resourceType = ScaledJobResource" by simp
  with repeat_RecordScalerError_job [OF assms(1), of k scalerIndex e s] show ?thesis
    by (auto simp: known_kinds_differ)
qed

theorem RecordScalerError_counts_witness:
  "valid_label_tuple ''ns1'' ''obj1'' ''scaler-a'' ''queueLength'' \<and>
   (\<exists>s'. repeat_call 3 (RecordScalerError ''ns1'' ''obj1'' ''scaler-a'' 0 ''queueLength''
             (Some (GoError ''timeout'')) ScaledJobResource) registered = Inr s' \<and>
      metric_value (scaledJobScalerErrors s') [''ns1'', ''queueLength'', ''obj1'', ''scaler-a'', ''0''] = 3 \<and>
      metric_value (scaledJobErrors s') [''ns1'', ''obj1''] = 3 \<and>
      metric_value (scalerErrorsTotal s') [] = 3)"
  using RecordScalerError_counts [OF valid_scenario_tuple, of ScaledJobResource 3 0
      "GoError ''timeout''" registered]
  by (simp add: valid_scenario_tuple metric_value_registered Itoa_0 known_kinds_differ)

lemma not_valid_FF: "\<not> utf8_ValidString [CHR 0xFF]"
  by (simp add: utf8_ValidString_def utf8_first_def)

lemma RecordScalerError_nil_object:
  "RecordScalerError ns res sc i m None ScaledObjectResource s =
     (if valid_label_tuple ns res sc m
      then Inr (s\<lparr>scaledObjectScalerErrors :=
                    getOrCreateMetric [ns, m, res, sc, Itoa i] (scaledObjectScalerErrors s)\<rparr>)
      else Inr (log_Error ErrInvalidUTF8 unable_to_write s))"
  by (simp add: RecordScalerError_def getLabels_def GetMetricWith_scaledObject and_then_def)

lemma RecordScalerError_nil_job:
  "RecordScalerError ns res sc i m None ScaledJobResource s =
     (if valid_label_tuple ns res sc m
      then Inr (s\<lparr>scaledJobScalerErrors :=
                    getOrCreateMetric [ns, m, res, sc, Itoa i] (scaledJobScalerErrors s)\<rparr>)
      else Inr (log_Error ErrInvalidUTF8 unable_to_write s))"
  by (simp add: RecordScalerError_def getLabels_def GetMetricWith_scaledJob and_then_def
      known_kinds_differ)

lemma RecordScaledObjectError_nil_object:
  "RecordScaledObjectError ns res None ScaledObjectResource s =
     (if utf8_ValidString ns \<and> utf8_ValidString res
      then Inr (s\<lparr>scaledObjectErrors := getOrCreateMetric [ns, res] (scaledObjectErrors s)\<rparr>)
      else Inr (log_Error ErrInvalidUTF8 unable_to_write s))"
  by (simp add: RecordScaledObjectError_def GetMetricWith_resource)

lemma RecordScaledObjectError_nil_job:
  "RecordScaledObjectError ns res None ScaledJobResource s =
     (if utf8_ValidString ns \<and> utf8_ValidString res
      then Inr (s\<lparr>scaledJobErrors := getOrCreateMetric [ns, res] (scaledJobErrors s)\<rparr>)
      else Inr (log_Error ErrInvalidUTF8 unable_to_write s))"
  by (simp add: RecordScaledObjectError_def GetMetricWith_resource known_kinds_differ)

lemma getOrCreateMetric_absent: "v lvs = None \<Longrightarrow> getOrCreateMetric lvs v = v(lvs \<mapsto> 0)"
  by (simp add: getOrCreateMetric_def)

lemma getOrCreateMetric_present: "v lvs \<noteq> None \<Longrightarrow> getOrCreateMetric lvs v = v"
  by (auto simp: getOrCreateMetric_def)

text \<open>
  Claim C2. With a nil error, a valid label tuple and a known kind, \<open>RecordScalerError\<close>
  only reads the per-scaler error counter at the tuple, creating it on the way: a tuple with
  no data point gets one at 0, and where a data point exists (at any count) the state is
  left as it is. \<open>RecordScaledObjectError\<close> with a nil error does the same on the tuple
  (namespace, resource name) of the resource-level counter.
\<close>

theorem nil_error_zero_initializes:
  "(valid_label_tuple namespace scaledResource scaler metric \<and>
    (resourceType = ScaledObjectResource \<or> resourceType = ScaledJobResource) \<longrightarrow>
    (\<exists>s'. RecordScalerError namespace scaledResource scaler scalerIndex metric None resourceType s
            = Inr s' \<and>
       (resourceType = ScaledObjectResource \<longrightarrow>
          (if scaledObjectScalerErrors s
                [namespace, metric, scaledResource, scaler, Itoa scalerIndex] = None
           then s' = s\<lparr>scaledObjectScalerErrors := (scaledObjectScalerErrors s)
                        ([namespace, metric, scaledResource, scaler, Itoa scalerIndex] \<mapsto> 0)\<rparr>
           else s' = s)) \<and>
       (resourceType = ScaledJobResource \<longrightarrow>
          (if scaledJobScalerErrors s
                [namespace, metric, scaledResource, scaler, Itoa scalerIndex] = None
           then s' = s\<lparr>scaledJobScalerErrors := (scaledJobScalerErrors s)
                        ([namespace, metric, scaledResource, scaler, Itoa scalerIndex] \<mapsto> 0)\<rparr>
           else s' = s)))) \<and>
   (utf8_ValidString namespace \<and> utf8_ValidString scaledResource \<and>
    (resourceType = ScaledObjectResource \<or> resourceType = ScaledJobResource) \<longrightarrow>
    (\<exists>s'. RecordScaledObjectError namespace scaledResource None resourceType s = Inr s' \<and>
       (resourceType = ScaledObjectResource \<longrightarrow>
          (if scaledObjectErrors s [namespace, scaledResource] = None
           then s' = s\<lparr>scaledObjectErrors :=
                        (scaledObjectErrors s)([namespace, scaledResource] \<mapsto> 0)\<rparr>
           else s' = s)) \<and>
       (resourceType = ScaledJobResource \<longrightarrow>
          (if scaledJobErrors s [namespace, scaledResource] = None
           then s' = s\<lparr>scaledJobErrors :=
                        (scaledJobErrors s)([namespace, scaledResource] \<mapsto> 0)\<rparr>
           else s' = s))))"
proof (intro conjI impI)
  assume a: "valid_label_tuple namespace scaledResource scaler metric \<and>
    (resourceType = ScaledObjectResource \<or> resourceType = ScaledJobResource)"
  then consider "resourceType = ScaledObjectResource" | "resourceType = ScaledJobResource"
    by blast
  then show "\<exists>s'. RecordScalerError namespace scaledResource scaler scalerIndex metric None resourceType s
            = Inr s' \<and>
       (resourceType = ScaledObjectResource \<longrightarrow>
          (if scaledObjectScalerErrors s
                [namespace, metric, scaledResource, scaler, Itoa scalerIndex] = None
           then s' = s\<lparr>scaledObjectScalerErrors := (scaledObjectScalerErrors s)
                        ([namespace, metric, scaledResource, scaler, Itoa scalerIndex] \<mapsto> 0)\<rparr>
           else s' = s)) \<and>
       (resourceType = ScaledJobResource \<longrightarrow>
          (if scaledJobScalerErrors s
                [namespace, metric, scaledResource, scaler, Itoa scalerIndex] = None
           then s' = s\<lparr>scaledJobScalerErrors := (scaledJobScalerErrors s)
                        ([namespace, metric, scaledResource, scaler, Itoa scalerIndex] \<mapsto> 0)\<rparr>
           else s' = s))"
  proof cases
    case 1
    with a show ?thesis
      by (simp add: RecordScalerError_nil_object known_kinds_differ getOrCreateMetric_absent
          getOrCreateMetric_present)
  next
    case 2
    with a show ?thesis
      by (simp add: RecordScalerError_nil_job known_kinds_differ getOrCreateMetric_absent
          getOrCreateMetric_present)
  qed
next
  assume a: "utf8_ValidString namespace \<and> utf8_ValidString scaledResource \<and>
    (resourceType = ScaledObjectResource \<or> resourceType = ScaledJobResource)"
  then consider "resourceType = ScaledObjectResource" | "resourceType = ScaledJobResource"
    by blast
  then show "\<exists>s'. RecordScaledObjectError namespace scaledResource None resourceType s = Inr s' \<and>
       (resourceType = ScaledObjectResource \<longrightarrow>
          (if scaledObjectErrors s [namespace, scaledResource] = None
           then s' = s\<lparr>scaledObjectErrors :=
                        (scaledObjectErrors s)([namespace, scaledResource] \<mapsto> 0)\<rparr>
           else s' = s)) \<and>
       (resourceType = ScaledJobResource \<longrightarrow>
          (if scaledJobErrors s [namespace, scaledResource] = None
           then s' = s\<lparr>scaledJobErrors :=
                        (scaledJobErrors s)([namespace, scaledResource] \<mapsto> 0)\<rparr>
           else s' = s))"
  proof cases
    case 1
    with a show ?thesis
      by (simp add: RecordScaledObjectError_nil_object known_kinds_differ
          getOrCreateMetric_absent getOrCreateMetric_present)
  next
    case 2
    with a show ?thesis
      by (simp add: RecordScaledObjectError_nil_job known_kinds_differ
          getOrCreateMetric_absent getOrCreateMetric_present)
  qed
qed

theorem nil_error_zero_initializes_witness:
  "valid_label_tuple ''ns1'' ''obj1'' ''scaler-a'' ''queueLength'' \<and>
   RecordScalerError ''ns1'' ''obj1'' ''scaler-a'' 0 ''queueLength'' None ScaledObjectResource
       registered =
     Inr (registered\<lparr>scaledObjectScalerErrors :=
            [[''ns1'', ''queueLength'', ''obj1'', ''scaler-a'', ''0''] \<mapsto> 0]\<rparr>) \<and>
   RecordScalerError ''ns1'' ''obj1'' ''scaler-a'' 0 ''queueLength'' None ScaledJobResource
       (registered\<lparr>scaledJobScalerErrors :=
            [[''ns1'', ''queueLength'', ''obj1'', ''scaler-a'', ''0''] \<mapsto> 5]\<rparr>) =
     Inr (registered\<lparr>scaledJobScalerErrors :=
            [[''ns1'', ''queueLength'', ''obj1'', ''scaler-a'', ''0''] \<mapsto> 5]\<rparr>) \<and>
   RecordScaledObjectError ''ns1'' ''obj1'' None ScaledJobResource registered =
     Inr (registered\<lparr>scaledJobErrors := [[''ns1'', ''obj1''] \<mapsto> 0]\<rparr>) \<and>
   RecordScaledObjectError ''ns1'' ''obj1'' None ScaledObjectResource
       (registered\<lparr>scaledObjectErrors := [[''ns1'', ''obj1''] \<mapsto> 2]\<rparr>) =
     Inr (registered\<lparr>scaledObjectErrors := [[''ns1'', ''obj1''] \<mapsto> 2]\<rparr>)"
proof -
  have v: "utf8_ValidString ''ns1''" "utf8_ValidString ''obj1''"
    using valid_scenario_tuple by (simp_all add: valid_label_tuple_def)
  have e: "scaledObjectScalerErrors registered = Map.empty" "scaledJobErrors registered = Map.empty"
    by (simp_all add: registered_def)
  show ?thesis
    using nil_error_zero_initializes [of "''ns1''" "''obj1''" "''scaler-a''" "''queueLength''"
        ScaledObjectResource 0 registered]
      nil_error_zero_initializes [of "''ns1''" "''obj1''" "''scaler-a''" "''queueLength''"
        ScaledJobResource 0 "registered\<lparr>scaledJobScalerErrors :=
            [[''ns1'', ''queueLength'', ''obj1'', ''scaler-a'', ''0''] \<mapsto> 5]\<rparr>"]
      nil_error_zero_initializes [of "''ns1''" "''obj1''" "''scaler-a''" "''queueLength''"
        ScaledJobResource 0 registered]
      nil_error_zero_initializes [of "''ns1''" "''obj1''" "''scaler-a''" "''queueLength''"
        ScaledObjectResource 0 "registered\<lparr>scaledObjectErrors := [[''ns1'', ''obj1''] \<mapsto> 2]\<rparr>"]
    by (simp add: valid_scenario_tuple v e Itoa_0 known_kinds_differ)
qed

subsection \<open>Recording values and activity\<close>

lemma With_scaledObject:
  "With scaledObjectMetricLabels
     (Some [(''namespace'', ns), (''scaledObject'', res), (''scaler'', sc),
            (''scalerIndex'', Itoa i), (''metric'', m)]) v =
   (if valid_label_tuple ns res sc m
    then Inr ([ns, m, res, sc, Itoa i], getOrCreateMetric [ns, m, res, sc, Itoa i] v)
    else Inl (Panic ErrInvalidUTF8))"
  by (simp add: With_def GetMetricWith_scaledObject)

lemma With_scaledJob:
  "With scaledJobmetricLabels
     (Some [(''namespace'', ns), (''scaledJob'', res), (''scaler'', sc),
            (''scalerIndex'', Itoa i), (''metric'', m)]) v =
   (if valid_label_tuple ns res sc m
    then Inr ([ns, m, res, sc, Itoa i], getOrCreateMetric [ns, m, res, sc, Itoa i] v)
    else Inl (Panic ErrInvalidUTF8))"
  by (simp add: With_def GetMetricWith_scaledJob)

lemma RecordScalerMetric_object:
  "RecordScalerMetric ns res sc i m x ScaledObjectResource s =
     (if valid_label_tuple ns res sc m
      then Inr (s\<lparr>scaledObjectScalerMetricsValue :=
                    (scaledObjectScalerMetricsValue s)([ns, m, res, sc, Itoa i] \<mapsto> x)\<rparr>)
      else Inl (Panic ErrInvalidUTF8))"
  by (simp add: RecordScalerMetric_def getLabels_def With_scaledObject and_then_def
      gauge_Set_created)

lemma RecordScalerMetric_job:
  "RecordScalerMetric ns res sc i m x ScaledJobResource s =
     (if valid_label_tuple ns res sc m
      then Inr (s\<lparr>scaledJobScalerMetricsValue :=
                    (scaledJobScalerMetricsValue s)([ns, m, res, sc, Itoa i] \<mapsto> x)\<rparr>)
      else Inl (Panic ErrInvalidUTF8))"
  by (simp add: RecordScalerMetric_def getLabels_def With_scaledJob and_then_def
      gauge_Set_created known_kinds_differ)

lemma RecordScalerActive_object:
  "RecordScalerActive ns res sc i m active ScaledObjectResource s =
     (if valid_label_tuple ns res sc m
      then Inr (s\<lparr>scaledObjectScalerActive :=
                    (scaledObjectScalerActive s)([ns, m, res, sc, Itoa i] \<mapsto>
                       (if active then 1 else 0))\<rparr>)
      else Inl (Panic ErrInvalidUTF8))"
  by (simp add: RecordScalerActive_def getLabels_def With_scaledObject and_then_def
      gauge_Set_created)

lemma RecordScalerActive_job:
  "RecordScalerActive ns res sc i m active ScaledJobResource s =
     (if valid_label_tuple ns res sc m
      then Inr (s\<lparr>scaledJobScalerActive :=
                    (scaledJobScalerActive s)([ns, m, res, sc, Itoa i] \<mapsto>
                       (if active then 1 else 0))\<rparr>)
      else Inl (Panic ErrInvalidUTF8))"
  by (simp add: RecordScalerActive_def getLabels_def With_scaledJob and_then_def
      gauge_Set_created known_kinds_differ)

lemma not_valid_tuple_FF: "\<not> valid_label_tuple [CHR 0xFF] res sc m"
  by (simp add: valid_label_tuple_def utf8_ValidString_def utf8_first_def)

text \<open>
  Claim C3, as stated, for every input: it fails where a label value is not valid UTF-8.
  The client library refuses the tuple, \<open>With\<close> panics, and no gauge is set.
\<close>

theorem RecordScalerMetric_rejected_tuple_panics:
  "RecordScalerMetric [CHR 0xFF] ''obj1'' ''scaler-a'' 0 ''queueLength'' 42
     ScaledObjectResource registered = Inl (Panic ErrInvalidUTF8)"
  by (simp add: RecordScalerMetric_object not_valid_tuple_FF)

text \<open>
  Claim C3, amended. For every valid label tuple (every label value valid UTF-8) and every
  known kind, \<open>RecordScalerMetric\<close> returns and the metrics-value gauge of that kind reads
  exactly the supplied value at the tuple (namespace, metric, resource name, scaler, scaler
  index), whatever the state before; a second call with another value returns as well and
  the gauge then reads the second value.
\<close>

theorem RecordScalerMetric_sets_gauge:
  assumes "valid_label_tuple namespace scaledResource scaler metric"
    and "resourceType = ScaledObjectResource \<or> resourceType = ScaledJobResource"
  shows "\<exists>s' s''.
           RecordScalerMetric namespace scaledResource scaler scalerIndex metric x resourceType s
             = Inr s' \<and>
           RecordScalerMetric namespace scaledResource scaler scalerIndex metric y resourceType s'
             = Inr s'' \<and>
           (resourceType = ScaledObjectResource \<longrightarrow>
              scaledObjectScalerMetricsValue s'
                [namespace, metric, scaledResource, scaler, Itoa scalerIndex] = Some x \<and>
              scaledObjectScalerMetricsValue s''
                [namespace, metric, scaledResource, scaler, Itoa scalerIndex] = Some y) \<and>
           (resourceType = ScaledJobResource \<longrightarrow>
              scaledJobScalerMetricsValue s'
                [namespace, metric, scaledResource, scaler, Itoa scalerIndex] = Some x \<and>
              scaledJobScalerMetricsValue s''
                [namespace, metric, scaledResource, scaler, Itoa scalerIndex] = Some y)"
  using assms
  by (auto simp: RecordScalerMetric_object RecordScalerMetric_job known_kinds_differ)

theorem RecordScalerMetric_sets_gauge_witness:
  "valid_label_tuple ''ns1'' ''obj1'' ''scaler-a'' ''queueLength'' \<and>
   (\<exists>s' s''.
      RecordScalerMetric ''ns1'' ''obj1'' ''scaler-a'' 0 ''queueLength'' 42 ScaledObjectResource
        registered = Inr s' \<and>
      RecordScalerMetric ''ns1'' ''obj1'' ''scaler-a'' 0 ''queueLength'' 7 ScaledObjectResource
        s' = Inr s'' \<and>
      scaledObjectScalerMetricsValue s'
        [''ns1'', ''queueLength'', ''obj1'', ''scaler-a'', ''0''] = Some 42 \<and>
      scaledObjectScalerMetricsValue s''
        [''ns1'', ''queueLength'', ''obj1'', ''scaler-a'', ''0''] = Some 7)"
  using RecordScalerMetric_sets_gauge [OF valid_scenario_tuple, of ScaledObjectResource 0 42
      registered 7]
  by (simp add: valid_scenario_tuple Itoa_0 known_kinds_differ)

text \<open>
  Claim C8. For every valid label tuple and known kind, \<open>RecordScalerActive\<close> returns and
  the activity gauge of that kind reads exactly 1 at the tuple when \<open>active\<close> is true and
  exactly 0 when it is false, whatever the gauge held before.
\<close>

theorem RecordScalerActive_sets_one_or_zero:
  assumes "valid_label_tuple namespace scaledResource scaler metric"
    and "resourceType = ScaledObjectResource \<or> resourceType = ScaledJobResource"
  shows "\<exists>s1 s0.
           RecordScalerActive namespace scaledResource scaler scalerIndex metric True
             resourceType s = Inr s1 \<and>
           RecordScalerActive namespace scaledResource scaler scalerIndex metric False
             resourceType s = Inr s0 \<and>
           (resourceType = ScaledObjectResource \<longrightarrow>
              scaledObjectScalerActive s1
                [namespace, metric, scaledResource, scaler, Itoa scalerIndex] = Some 1 \<and>
              scaledObjectScalerActive s0
                [namespace, metric, scaledResource, scaler, Itoa scalerIndex] = Some 0) \<and>
           (resourceType = ScaledJobResource \<longrightarrow>
              scaledJobScalerActive s1
                [namespace, metric, scaledResource, scaler, Itoa scalerIndex] = Some 1 \<and>
              scaledJobScalerActive s0
                [namespace, metric, scaledResource, scaler, Itoa scalerIndex] = Some 0)"
  using assms
  by (auto simp: RecordScalerActive_object RecordScalerActive_job known_kinds_differ)

theorem RecordScalerActive_sets_one_or_zero_witness:
  "valid_label_tuple ''ns1'' ''obj1'' ''scaler-a'' ''queueLength'' \<and>
   (\<exists>s1 s0.
      RecordScalerActive ''ns1'' ''obj1'' ''scaler-a'' 0 ''queueLength'' True ScaledJobResource
        (registered\<lparr>scaledJobScalerActive :=
           [[''ns1'', ''queueLength'', ''obj1'', ''scaler-a'', ''0''] \<mapsto> 0.5]\<rparr>) = Inr s1 \<and>
      RecordScalerActive ''ns1'' ''obj1'' ''scaler-a'' 0 ''queueLength'' False ScaledJobResource
        (registered\<lparr>scaledJobScalerActive :=
           [[''ns1'', ''queueLength'', ''obj1'', ''scaler-a'', ''0''] \<mapsto> 0.5]\<rparr>) = Inr s0 \<and>
      scaledJobScalerActive s1 [''ns1'', ''queueLength'', ''obj1'', ''scaler-a'', ''0''] = Some 1 \<and>
      scaledJobScalerActive s0 [''ns1'', ''queueLength'', ''obj1'', ''scaler-a'', ''0''] = Some 0)"
  using RecordScalerActive_sets_one_or_zero [OF valid_scenario_tuple, of ScaledJobResource 0
      "registered\<lparr>scaledJobScalerActive :=
           [[''ns1'', ''queueLength'', ''obj1'', ''scaler-a'', ''0''] \<mapsto> 0.5]\<rparr>"]
  by (simp add: valid_scenario_tuple Itoa_0 known_kinds_differ)

subsection \<open>Resource kinds other than the two known ones\<close>

lemma getLabels_unknown:
  "rt \<noteq> ScaledObjectResource \<Longrightarrow> rt \<noteq> ScaledJobResource \<Longrightarrow>
   getLabels ns res sc i m rt = Inr None"
  by (simp add: getLabels_def)

lemma routing_unknown:
  assumes "rt \<noteq> ScaledObjectResource" "rt \<noteq> ScaledJobResource"
  shows "RecordScalerMetric ns res sc i m x rt s = Inr s"
    and "RecordScalerLatency ns res sc i m x rt s = Inr s"
    and "RecordScalerActive ns res sc i m active rt s = Inr s"
    and "RecordScalerError ns res sc i m err rt s = Inr s"
    and "RecordScaledObjectError ns res err rt s = Inr s"
  using assms
  by (simp_all add: RecordScalerMetric_def RecordScalerLatency_def RecordScalerActive_def
      RecordScalerError_def RecordScaledObjectError_def getLabels_unknown and_then_def)

text \<open>
  Claim C4. For a resource kind that is neither scaled_object nor scaled_job, each routing
  function returns the state it was given: no series changes, no data point is created and
  nothing is logged. This holds for every input, so also with a nil error on a state with
  no data point and with label values the client library would refuse: no lookup is made.
\<close>

theorem unknown_kind_is_noop:
  assumes "resourceType \<noteq> ScaledObjectResource" and "resourceType \<noteq> ScaledJobResource"
  shows "RecordScalerMetric namespace scaledResource scaler scalerIndex metric x resourceType s
           = Inr s \<and>
         RecordScalerLatency namespace scaledResource scaler scalerIndex metric x resourceType s
           = Inr s \<and>
         RecordScalerActive namespace scaledResource scaler scalerIndex metric active
           resourceType s = Inr s \<and>
         RecordScalerError namespace scaledResource scaler scalerIndex metric err resourceType s
           = Inr s \<and>
         RecordScaledObjectError namespace scaledResource err resourceType s = Inr s"
  by (simp add: routing_unknown [OF assms])

theorem unknown_kind_is_noop_witness:
  "''trigger_authentication'' \<noteq> ScaledObjectResource \<and>
   ''trigger_authentication'' \<noteq> ScaledJobResource \<and>
   RecordScalerMetric [CHR 0xFF] ''obj1'' ''scaler-a'' 0 ''queueLength'' 42
     ''trigger_authentication'' registered = Inr registered \<and>
   RecordScalerLatency [CHR 0xFF] ''obj1'' ''scaler-a'' 0 ''queueLength'' 42
     ''trigger_authentication'' registered = Inr registered \<and>
   RecordScalerActive [CHR 0xFF] ''obj1'' ''scaler-a'' 0 ''queueLength'' True
     ''trigger_authentication'' registered = Inr registered \<and>
   RecordScalerError [CHR 0xFF] ''obj1'' ''scaler-a'' 0 ''queueLength'' None
     ''trigger_authentication'' registered = Inr registered \<and>
   RecordScaledObjectError [CHR 0xFF] ''obj1'' None ''trigger_authentication'' registered
     = Inr registered"
proof -
  have k: "''trigger_authentication'' \<noteq> ScaledObjectResource"
    "''trigger_authentication'' \<noteq> ScaledJobResource"
    by (simp_all add: ScaledObjectResource_def ScaledJobResource_def)
  show ?thesis
    using k unknown_kind_is_noop [OF k, of "[CHR 0xFF]" "''obj1''" "''scaler-a''" 0
        "''queueLength''" 42 registered True None]
    by simp
qed

text \<open>
  Claim C5, as stated: \<open>getLabels\<close> does not panic for an unrecognised kind. It returns
  the nil label map.
\<close>

theorem getLabels_unknown_kind_returns_nil:
  "getLabels ''ns1'' ''obj1'' ''scaler-a'' 0 ''queueLength'' ''cluster_trigger_authentication''
     = Inr None"
  by (simp add: getLabels_def ScaledObjectResource_def ScaledJobResource_def)

text \<open>
  Claim C5, amended. For a kind that is neither scaled_object nor scaled_job, \<open>getLabels\<close>
  returns the nil label map: it neither panics nor reports an error. The routing functions
  that call it then match no case and return without any effect.
\<close>

theorem getLabels_nil_and_routing_silent:
  assumes "resourceType \<noteq> ScaledObjectResource" and "resourceType \<noteq> ScaledJobResource"
  shows "getLabels namespace scaledResource scaler scalerIndex metric resourceType = Inr None \<and>
         RecordScalerMetric namespace scaledResource scaler scalerIndex metric x resourceType s
           = Inr s \<and>
         RecordScalerLatency namespace scaledResource scaler scalerIndex metric x resourceType s
           = Inr s \<and>
         RecordScalerActive namespace scaledResource scaler scalerIndex metric active
           resourceType s = Inr s \<and>
         RecordScalerError namespace scaledResource scaler scalerIndex metric err resourceType s
           = Inr s"
  by (simp add: getLabels_unknown [OF assms] routing_unknown [OF assms])

theorem getLabels_nil_and_routing_silent_witness:
  "''deployment'' \<noteq> ScaledObjectResource \<and> ''deployment'' \<noteq> ScaledJobResource \<and>
   getLabels ''ns1'' ''obj1'' ''scaler-a'' 3 ''queueLength'' ''deployment'' = Inr None \<and>
   RecordScalerMetric ''ns1'' ''obj1'' ''scaler-a'' 3 ''queueLength'' 42 ''deployment'' registered
     = Inr registered \<and>
   RecordScalerLatency ''ns1'' ''obj1'' ''scaler-a'' 3 ''queueLength'' 42 ''deployment'' registered
     = Inr registered \<and>
   RecordScalerActive ''ns1'' ''obj1'' ''scaler-a'' 3 ''queueLength'' True ''deployment'' registered
     = Inr registered \<and>
   RecordScalerError ''ns1'' ''obj1'' ''scaler-a'' 3 ''queueLength'' (Some (GoError ''timeout''))
     ''deployment'' registered = Inr registered"
proof -
  have k: "''deployment'' \<noteq> ScaledObjectResource" "''deployment'' \<noteq> ScaledJobResource"
    by (simp_all add: ScaledObjectResource_def ScaledJobResource_def)
  show ?thesis
    using k getLabels_nil_and_routing_silent [OF k, of "''ns1''" "''obj1''" "''scaler-a''" 3
        "''queueLength''" 42 registered True "Some (GoError ''timeout'')"]
    by simp
qed

subsection \<open>The live-count gauges\<close>

lemma WithLabelValues_type:
  "WithLabelValues [''type''] [t] v =
     (if utf8_ValidString t then Inr ([t], getOrCreateMetric [t] v)
      else Inl (Panic ErrInvalidUTF8))"
  by (simp add: WithLabelValues_def GetMetricWithLabelValues_def validateLabelValues_def)

lemma WithLabelValues_type_namespace:
  "WithLabelValues [''type'', ''namespace''] [t, n] v =
     (if utf8_ValidString t \<and> utf8_ValidString n then Inr ([t, n], getOrCreateMetric [t, n] v)
      else Inl (Panic ErrInvalidUTF8))"
  by (simp add: WithLabelValues_def GetMetricWithLabelValues_def validateLabelValues_def)

lemma valid_default: "utf8_ValidString ''default''"
  by (simp add: utf8_ValidString_def)

lemma valid_empty: "utf8_ValidString ''''"
  by (simp add: utf8_ValidString_def)

lemma IncrementCRDTotal_valid:
  "utf8_ValidString t \<Longrightarrow> utf8_ValidString n \<Longrightarrow>
   IncrementCRDTotal t n s =
     Inr (s\<lparr>crdTotalsGaugeVec := (crdTotalsGaugeVec s)
            ([t, if n = '''' then ''default'' else n] \<mapsto>
               metric_value (crdTotalsGaugeVec s) [t, if n = '''' then ''default'' else n] + 1)\<rparr>)"
  by (simp add: IncrementCRDTotal_def WithLabelValues_type_namespace and_then_def
      gauge_Inc_created valid_default Let_def)

lemma DecrementCRDTotal_valid:
  "utf8_ValidString t \<Longrightarrow> utf8_ValidString n \<Longrightarrow>
   DecrementCRDTotal t n s =
     Inr (s\<lparr>crdTotalsGaugeVec := (crdTotalsGaugeVec s)
            ([t, if n = '''' then ''default'' else n] \<mapsto>
               metric_value (crdTotalsGaugeVec s) [t, if n = '''' then ''default'' else n] - 1)\<rparr>)"
  by (simp add: DecrementCRDTotal_def WithLabelValues_type_namespace and_then_def
      gauge_Dec_created valid_default Let_def)

lemma IncrementTriggerTotal_valid:
  "t \<noteq> '''' \<Longrightarrow> utf8_ValidString t \<Longrightarrow>
   IncrementTriggerTotal t s =
     Inr (s\<lparr>triggerTotalsGaugeVec := (triggerTotalsGaugeVec s)
            ([t] \<mapsto> metric_value (triggerTotalsGaugeVec s) [t] + 1)\<rparr>)"
  by (simp add: IncrementTriggerTotal_def WithLabelValues_type and_then_def gauge_Inc_created)

lemma DecrementTriggerTotal_valid:
  "t \<noteq> '''' \<Longrightarrow> utf8_ValidString t \<Longrightarrow>
   DecrementTriggerTotal t s =
     Inr (s\<lparr>triggerTotalsGaugeVec := (triggerTotalsGaugeVec s)
            ([t] \<mapsto> metric_value (triggerTotalsGaugeVec s) [t] - 1)\<rparr>)"
  by (simp add: DecrementTriggerTotal_def WithLabelValues_type and_then_def gauge_Dec_created)

lemma metric_value_absent: "v lvs = None \<Longrightarrow> metric_value v lvs = 0"
  by (simp add: metric_value_def)

text \<open>
  Claim C6. An empty namespace is replaced by "default" before the resource-totals gauge is
  addressed: for every resource type and every state, \<open>IncrementCRDTotal\<close> with the empty
  namespace has the outcome of \<open>IncrementCRDTotal\<close> with the namespace "default", and so
  has \<open>DecrementCRDTotal\<close>. Where the resource type is accepted by the client library,
  that outcome is the gauge at (type, "default") moved by one, and nothing else.
\<close>

theorem CRDTotal_empty_namespace_is_default:
  "IncrementCRDTotal crdType '''' s = IncrementCRDTotal crdType ''default'' s \<and>
   DecrementCRDTotal crdType '''' s = DecrementCRDTotal crdType ''default'' s \<and>
   (utf8_ValidString crdType \<longrightarrow>
      IncrementCRDTotal crdType '''' s =
        Inr (s\<lparr>crdTotalsGaugeVec := (crdTotalsGaugeVec s)
               ([crdType, ''default''] \<mapsto>
                  metric_value (crdTotalsGaugeVec s) [crdType, ''default''] + 1)\<rparr>) \<and>
      DecrementCRDTotal crdType '''' s =
        Inr (s\<lparr>crdTotalsGaugeVec := (crdTotalsGaugeVec s)
               ([crdType, ''default''] \<mapsto>
                  metric_value (crdTotalsGaugeVec s) [crdType, ''default''] - 1)\<rparr>))"
proof (intro conjI impI)
  show "IncrementCRDTotal crdType '''' s = IncrementCRDTotal crdType ''default'' s"
    by (simp add: IncrementCRDTotal_def)
  show "DecrementCRDTotal crdType '''' s = DecrementCRDTotal crdType ''default'' s"
    by (simp add: DecrementCRDTotal_def)
next
  assume v: "utf8_ValidString crdType"
  show "IncrementCRDTotal crdType '''' s =
        Inr (s\<lparr>crdTotalsGaugeVec := (crdTotalsGaugeVec s)
               ([crdType, ''default''] \<mapsto>
                  metric_value (crdTotalsGaugeVec s) [crdType, ''default''] + 1)\<rparr>)"
    using IncrementCRDTotal_valid [OF v valid_empty, of s] by simp
next
  assume v: "utf8_ValidString crdType"
  show "DecrementCRDTotal crdType '''' s =
        Inr (s\<lparr>crdTotalsGaugeVec := (crdTotalsGaugeVec s)
               ([crdType, ''default''] \<mapsto>
                  metric_value (crdTotalsGaugeVec s) [crdType, ''default''] - 1)\<rparr>)"
    using DecrementCRDTotal_valid [OF v valid_empty, of s] by simp
qed

theorem CRDTotal_empty_namespace_is_default_witness:
  "utf8_ValidString ''Foo'' \<and>
   IncrementCRDTotal ''Foo'' '''' registered = IncrementCRDTotal ''Foo'' ''default'' registered \<and>
   IncrementCRDTotal ''Foo'' '''' registered =
     Inr (registered\<lparr>crdTotalsGaugeVec := [[''Foo'', ''default''] \<mapsto> 1]\<rparr>) \<and>
   DecrementCRDTotal ''Foo'' ''''
       (registered\<lparr>crdTotalsGaugeVec := [[''Foo'', ''default''] \<mapsto> 1]\<rparr>) =
     Inr (registered\<lparr>crdTotalsGaugeVec := [[''Foo'', ''default''] \<mapsto> 0]\<rparr>)"
proof -
  have v: "utf8_ValidString ''Foo''"
    by (simp add: utf8_ValidString_def)
  have e: "crdTotalsGaugeVec registered = Map.empty"
    by (simp add: registered_def)
  note fresh = CRDTotal_empty_namespace_is_default [of "''Foo''" registered]
  note counted = CRDTotal_empty_namespace_is_default [of "''Foo''"
        "registered\<lparr>crdTotalsGaugeVec := [[''Foo'', ''default''] \<mapsto> 1]\<rparr>"]
  have a: "IncrementCRDTotal ''Foo'' '''' registered = IncrementCRDTotal ''Foo'' ''default'' registered"
    using fresh by (rule conjunct1)
  have b: "IncrementCRDTotal ''Foo'' '''' registered =
     Inr (registered\<lparr>crdTotalsGaugeVec := [[''Foo'', ''default''] \<mapsto> 1]\<rparr>)"
    using fresh [THEN conjunct2, THEN conjunct2, rule_format, OF v, THEN conjunct1]
    by (simp add: e metric_value_def)
  have c: "DecrementCRDTotal ''Foo'' ''''
       (registered\<lparr>crdTotalsGaugeVec := [[''Foo'', ''default''] \<mapsto> 1]\<rparr>) =
     Inr (registered\<lparr>crdTotalsGaugeVec := [[''Foo'', ''default''] \<mapsto> 0]\<rparr>)"
    using counted [THEN conjunct2, THEN conjunct2, rule_format, OF v, THEN conjunct2]
    by (simp add: metric_value_def)
  from v a b c show ?thesis by (intro conjI)
qed

text \<open>
  Claim C7. With the empty string as trigger type, \<open>IncrementTriggerTotal\<close> and
  \<open>DecrementTriggerTotal\<close> return the state they were given, whatever it is: no data
  point is created or changed.
\<close>

theorem TriggerTotal_empty_type_is_noop:
  "IncrementTriggerTotal '''' s = Inr s \<and> DecrementTriggerTotal '''' s = Inr s"
  by (simp add: IncrementTriggerTotal_def DecrementTriggerTotal_def)

text \<open>
  Claim C10, as stated, for every non-empty trigger type: it fails for a trigger type that
  is not valid UTF-8. \<open>WithLabelValues\<close> panics and no data point is created.
\<close>

theorem DecrementTriggerTotal_rejected_type_panics:
  "DecrementTriggerTotal [CHR 0xFF] registered = Inl (Panic ErrInvalidUTF8)"
  by (simp add: DecrementTriggerTotal_def WithLabelValues_type not_valid_FF and_then_def)

text \<open>
  Claim C10, amended. The live-count gauges are not clamped at zero. For a non-empty trigger
  type that is valid UTF-8 and has no data point, \<open>DecrementTriggerTotal\<close> creates the
  data point of the trigger-totals gauge and leaves it at -1. For a resource type and a
  namespace that are valid UTF-8, where the tuple (type, namespace, with "default" for the
  empty namespace) has no data point, \<open>DecrementCRDTotal\<close> creates the data point of the
  resource-totals gauge and leaves it at -1. Nothing else changes.
\<close>

theorem Decrement_before_increment_gives_minus_one:
  "(triggerType \<noteq> '''' \<and> utf8_ValidString triggerType \<and>
    triggerTotalsGaugeVec s [triggerType] = None \<longrightarrow>
      DecrementTriggerTotal triggerType s =
        Inr (s\<lparr>triggerTotalsGaugeVec := (triggerTotalsGaugeVec s)([triggerType] \<mapsto> - 1)\<rparr>)) \<and>
   (utf8_ValidString crdType \<and> utf8_ValidString namespace \<and>
    crdTotalsGaugeVec s [crdType, if namespace = '''' then ''default'' else namespace] = None \<longrightarrow>
      DecrementCRDTotal crdType namespace s =
        Inr (s\<lparr>crdTotalsGaugeVec := (crdTotalsGaugeVec s)
               ([crdType, if namespace = '''' then ''default'' else namespace] \<mapsto> - 1)\<rparr>))"
proof (intro conjI impI)
  assume a: "triggerType \<noteq> '''' \<and> utf8_ValidString triggerType \<and>
    triggerTotalsGaugeVec s [triggerType] = None"
  then show "DecrementTriggerTotal triggerType s =
        Inr (s\<lparr>triggerTotalsGaugeVec := (triggerTotalsGaugeVec s)([triggerType] \<mapsto> - 1)\<rparr>)"
    by (simp add: DecrementTriggerTotal_valid metric_value_absent)
next
  assume a: "utf8_ValidString crdType \<and> utf8_ValidString namespace \<and>
    crdTotalsGaugeVec s [crdType, if namespace = '''' then ''default'' else namespace] = None"
  then show "DecrementCRDTotal crdType namespace s =
        Inr (s\<lparr>crdTotalsGaugeVec := (crdTotalsGaugeVec s)
               ([crdType, if namespace = '''' then ''default'' else namespace] \<mapsto> - 1)\<rparr>)"
    by (simp add: DecrementCRDTotal_valid metric_value_absent)
qed

theorem Decrement_before_increment_gives_minus_one_witness:
  "''kafka'' \<noteq> '''' \<and> utf8_ValidString ''kafka'' \<and>
   triggerTotalsGaugeVec registered [''kafka''] = None \<and>
   DecrementTriggerTotal ''kafka'' registered =
     Inr (registered\<lparr>triggerTotalsGaugeVec := [[''kafka''] \<mapsto> - 1]\<rparr>) \<and>
   utf8_ValidString ''scaled_object'' \<and> utf8_ValidString '''' \<and>
   crdTotalsGaugeVec registered [''scaled_object'', ''default''] = None \<and>
   DecrementCRDTotal ''scaled_object'' '''' registered =
     Inr (registered\<lparr>crdTotalsGaugeVec := [[''scaled_object'', ''default''] \<mapsto> - 1]\<rparr>)"
proof -
  have v: "utf8_ValidString ''kafka''" "utf8_ValidString ''scaled_object''" "utf8_ValidString ''''"
    by (simp_all add: utf8_ValidString_def)
  have e: "crdTotalsGaugeVec registered = Map.empty" "triggerTotalsGaugeVec registered = Map.empty"
    by (simp_all add: registered_def)
  show ?thesis
    using v Decrement_before_increment_gives_minus_one [of "''kafka''" registered
        "''scaled_object''" "''''"]
    by (simp add: e)
qed

subsection \<open>What a rejected label tuple does to a call\<close>

lemma returns_Inr: "returns (Inr s)"
  by (simp add: returns_def)

lemma RecordScalerLatency_valid:
  "valid_label_tuple ns res sc m \<Longrightarrow> returns (RecordScalerLatency ns res sc i m x rt s)"
  by (simp add: RecordScalerLatency_def getLabels_def With_scaledObject With_scaledJob
      and_then_def returns_def)

lemma RecordScalerMetric_valid:
  "valid_label_tuple ns res sc m \<Longrightarrow> returns (RecordScalerMetric ns res sc i m x rt s)"
  by (simp add: RecordScalerMetric_def getLabels_def With_scaledObject With_scaledJob
      and_then_def returns_def)

lemma RecordScalerActive_valid:
  "valid_label_tuple ns res sc m \<Longrightarrow> returns (RecordScalerActive ns res sc i m active rt s)"
  by (simp add: RecordScalerActive_def getLabels_def With_scaledObject With_scaledJob
      and_then_def returns_def)

lemma RecordScaledObjectError_nil_returns:
  "returns (RecordScaledObjectError ns res None rt s)"
  by (simp add: RecordScaledObjectError_def GetMetricWith_resource returns_def)

lemma RecordScalerError_nil_returns:
  "returns (RecordScalerError ns res sc i m None rt s)"
  by (simp add: RecordScalerError_def getLabels_def GetMetricWith_scaledObject
      GetMetricWith_scaledJob and_then_def returns_def)

lemma RecordScaledObjectError_valid:
  assumes "utf8_ValidString ns" "utf8_ValidString res"
  shows "returns (RecordScaledObjectError ns res err rt s)"
proof (cases err)
  case None
  then show ?thesis by (simp add: RecordScaledObjectError_nil_returns)
next
  case (Some e)
  consider "rt = ScaledObjectResource" | "rt = ScaledJobResource"
    | "rt \<noteq> ScaledObjectResource" "rt \<noteq> ScaledJobResource"
    by blast
  then show ?thesis
  proof cases
    case 1
    with Some assms show ?thesis by (simp add: RecordScaledObjectError_object returns_Inr)
  next
    case 2
    with Some assms show ?thesis by (simp add: RecordScaledObjectError_job returns_Inr)
  next
    case 3
    then show ?thesis by (simp add: routing_unknown returns_Inr)
  qed
qed

lemma RecordScalerError_valid:
  assumes "valid_label_tuple ns res sc m"
  shows "returns (RecordScalerError ns res sc i m err rt s)"
proof (cases err)
  case None
  then show ?thesis by (simp add: RecordScalerError_nil_returns)
next
  case (Some e)
  consider "rt = ScaledObjectResource" | "rt = ScaledJobResource"
    | "rt \<noteq> ScaledObjectResource" "rt \<noteq> ScaledJobResource"
    by blast
  then show ?thesis
  proof cases
    case 1
    with Some assms show ?thesis by (simp add: RecordScalerError_object returns_Inr)
  next
    case 2
    with Some assms show ?thesis by (simp add: RecordScalerError_job returns_Inr)
  next
    case 3
    then show ?thesis by (simp add: routing_unknown returns_Inr)
  qed
qed

lemma RecordScalableObjectLatency_valid:
  "utf8_ValidString ns \<Longrightarrow> utf8_ValidString name \<Longrightarrow>
   returns (RecordScalableObjectLatency ns name isScaledObject x s)"
  by (simp add: RecordScalableObjectLatency_def WithLabelValues_def GetMetricWithLabelValues_def
      validateLabelValues_def and_then_def returns_def utf8_ValidString_def Let_def)

lemma RecordBuildInfo_valid:
  "utf8_ValidString v1 \<Longrightarrow> utf8_ValidString v2 \<Longrightarrow> utf8_ValidString v3 \<Longrightarrow>
   utf8_ValidString v4 \<Longrightarrow> utf8_ValidString v5 \<Longrightarrow>
   returns (RecordBuildInfo v1 v2 v3 v4 v5 s)"
  by (simp add: RecordBuildInfo_def WithLabelValues_def GetMetricWithLabelValues_def
      validateLabelValues_def and_then_def returns_def)

lemma TriggerTotal_valid:
  "utf8_ValidString t \<Longrightarrow> returns (IncrementTriggerTotal t s)"
  "utf8_ValidString t \<Longrightarrow> returns (DecrementTriggerTotal t s)"
  by (simp_all add: IncrementTriggerTotal_def DecrementTriggerTotal_def WithLabelValues_type
      and_then_def returns_def)

lemma CRDTotal_valid:
  "utf8_ValidString t \<Longrightarrow> utf8_ValidString n \<Longrightarrow> returns (IncrementCRDTotal t n s)"
  "utf8_ValidString t \<Longrightarrow> utf8_ValidString n \<Longrightarrow> returns (DecrementCRDTotal t n s)"
  by (simp_all add: IncrementCRDTotal_valid DecrementCRDTotal_valid returns_Inr)

lemma RecordScalerError_rejected:
  assumes "rt = ScaledObjectResource \<or> rt = ScaledJobResource"
    and "\<not> valid_label_tuple ns res sc m"
  shows "RecordScalerError ns res sc i m (Some e) rt s = Inl (Panic ErrInvalidUTF8)"
    and "RecordScalerError ns res sc i m None rt s = Inr (log_Error ErrInvalidUTF8 unable_to_write s)"
  using assms
  by (auto simp: RecordScalerError_def getLabels_def With_scaledObject With_scaledJob
      GetMetricWith_scaledObject GetMetricWith_scaledJob and_then_def known_kinds_differ)

lemma RecordScaledObjectError_rejected:
  assumes "rt = ScaledObjectResource \<or> rt = ScaledJobResource"
    and "\<not> (utf8_ValidString ns \<and> utf8_ValidString res)"
  shows "RecordScaledObjectError ns res (Some e) rt s = Inl (Panic ErrInvalidUTF8)"
    and "RecordScaledObjectError ns res None rt s = Inr (log_Error ErrInvalidUTF8 unable_to_write s)"
  using assms
  by (auto simp: RecordScaledObjectError_def With_def GetMetricWith_resource and_then_def
      known_kinds_differ)

text \<open>
  Claim C9, as stated, for every input: it fails on the write paths. With a non-nil error
  and a namespace that is not valid UTF-8, \<open>RecordScalerError\<close> reaches
  \<open>With(labels)\<close>, which panics: the rejection is not logged and discarded there.
\<close>

theorem RecordScalerError_rejected_write_panics:
  "RecordScalerError [CHR 0xFF] ''obj1'' ''scaler-a'' 0 ''queueLength''
     (Some (GoError ''timeout'')) ScaledObjectResource registered = Inl (Panic ErrInvalidUTF8)"
  by (simp add: RecordScalerError_rejected not_valid_tuple_FF)

text \<open>
  Claim C9, amended. On the zero-initialising paths (a nil error) \<open>RecordScalerError\<close>
  and \<open>RecordScaledObjectError\<close> return for every input, and a rejection by the client
  library is logged once and discarded: the state after the call is the state before with
  one more log entry, every series as it was. Every recording function returns when its
  label values are valid UTF-8. On the write paths the functions go through \<open>With\<close> and
  \<open>WithLabelValues\<close>, so there a rejected label tuple is a panic: the two error recorders
  panic with a non-nil error on a known kind when a label value is not valid UTF-8.
\<close>

theorem recording_returns_unless_write_rejected:
  "returns (RecordScalerError namespace scaledResource scaler scalerIndex metric None
              resourceType s) \<and>
   returns (RecordScaledObjectError namespace scaledResource None resourceType s) \<and>
   ((resourceType = ScaledObjectResource \<or> resourceType = ScaledJobResource) \<and>
    \<not> valid_label_tuple namespace scaledResource scaler metric \<longrightarrow>
      RecordScalerError namespace scaledResource scaler scalerIndex metric None resourceType s
        = Inr (s\<lparr>logged := logged s @ [(ErrInvalidUTF8, unable_to_write)]\<rparr>) \<and>
      RecordScalerError namespace scaledResource scaler scalerIndex metric (Some e)
        resourceType s = Inl (Panic ErrInvalidUTF8)) \<and>
   ((resourceType = ScaledObjectResource \<or> resourceType = ScaledJobResource) \<and>
    \<not> (utf8_ValidString namespace \<and> utf8_ValidString scaledResource) \<longrightarrow>
      RecordScaledObjectError namespace scaledResource None resourceType s
        = Inr (s\<lparr>logged := logged s @ [(ErrInvalidUTF8, unable_to_write)]\<rparr>) \<and>
      RecordScaledObjectError namespace scaledResource (Some e) resourceType s
        = Inl (Panic ErrInvalidUTF8)) \<and>
   (valid_label_tuple namespace scaledResource scaler metric \<longrightarrow>
      returns (RecordScalerMetric namespace scaledResource scaler scalerIndex metric x
                 resourceType s) \<and>
      returns (RecordScalerLatency namespace scaledResource scaler scalerIndex metric x
                 resourceType s) \<and>
      returns (RecordScalerActive namespace scaledResource scaler scalerIndex metric active
                 resourceType s) \<and>
      returns (RecordScalerError namespace scaledResource scaler scalerIndex metric err
                 resourceType s) \<and>
      returns (RecordScaledObjectError namespace scaledResource err resourceType s) \<and>
      returns (RecordScalableObjectLatency namespace scaledResource isScaledObject x s)) \<and>
   (utf8_ValidString triggerType \<longrightarrow>
      returns (IncrementTriggerTotal triggerType s) \<and>
      returns (DecrementTriggerTotal triggerType s)) \<and>
   (utf8_ValidString crdType \<and> utf8_ValidString namespace \<longrightarrow>
      returns (IncrementCRDTotal crdType namespace s) \<and>
      returns (DecrementCRDTotal crdType namespace s)) \<and>
   (utf8_ValidString version \<and> utf8_ValidString gitCommit \<and> utf8_ValidString goVersion \<and>
    utf8_ValidString goos \<and> utf8_ValidString goarch \<longrightarrow>
      returns (RecordBuildInfo version gitCommit goVersion goos goarch s))"
proof (intro conjI impI)
  show "returns (RecordScalerError namespace scaledResource scaler scalerIndex metric None
              resourceType s)"
    by (rule RecordScalerError_nil_returns)
  show "returns (RecordScaledObjectError namespace scaledResource None resourceType s)"
    by (rule RecordScaledObjectError_nil_returns)
next
  assume a: "(resourceType = ScaledObjectResource \<or> resourceType = ScaledJobResource) \<and>
    \<not> valid_label_tuple namespace scaledResource scaler metric"
  then show "RecordScalerError namespace scaledResource scaler scalerIndex metric None resourceType s
        = Inr (s\<lparr>logged := logged s @ [(ErrInvalidUTF8, unable_to_write)]\<rparr>)"
    by (simp add: RecordScalerError_rejected log_Error_def)
  from a show "RecordScalerError namespace scaledResource scaler scalerIndex metric (Some e)
        resourceType s = Inl (Panic ErrInvalidUTF8)"
    by (simp add: RecordScalerError_rejected)
next
  assume a: "(resourceType = ScaledObjectResource \<or> resourceType = ScaledJobResource) \<and>
    \<not> (utf8_ValidString namespace \<and> utf8_ValidString scaledResource)"
  then show "RecordScaledObjectError namespace scaledResource None resourceType s
        = Inr (s\<lparr>logged := logged s @ [(ErrInvalidUTF8, unable_to_write)]\<rparr>)"
    by (simp add: RecordScaledObjectError_rejected log_Error_def)
  from a show "RecordScaledObjectError namespace scaledResource (Some e) resourceType s
        = Inl (Panic ErrInvalidUTF8)"
    by (simp add: RecordScaledObjectError_rejected)
next
  assume v: "valid_label_tuple namespace scaledResource scaler metric"
  then have u: "utf8_ValidString namespace" "utf8_ValidString scaledResource"
    by (simp_all add: valid_label_tuple_def)
  from v show "returns (RecordScalerMetric namespace scaledResource scaler scalerIndex metric x
                 resourceType s)"
    by (rule RecordScalerMetric_valid)
  from v show "returns (RecordScalerLatency namespace scaledResource scaler scalerIndex metric x
                 resourceType s)"
    by (rule RecordScalerLatency_valid)
  from v show "returns (RecordScalerActive namespace scaledResource scaler scalerIndex metric active
                 resourceType s)"
    by (rule RecordScalerActive_valid)
  from v show "returns (RecordScalerError namespace scaledResource scaler scalerIndex metric err
                 resourceType s)"
    by (rule RecordScalerError_valid)
  from u show "returns (RecordScaledObjectError namespace scaledResource err resourceType s)"
    by (rule RecordScaledObjectError_valid)
  from u show "returns (RecordScalableObjectLatency namespace scaledResource isScaledObject x s)"
    by (rule RecordScalableObjectLatency_valid)
next
  assume "utf8_ValidString triggerType"
  then show "returns (IncrementTriggerTotal triggerType s)"
    and "returns (DecrementTriggerTotal triggerType s)"
    by (simp_all add: TriggerTotal_valid)
next
  assume "utf8_ValidString crdType \<and> utf8_ValidString namespace"
  then show "returns (IncrementCRDTotal crdType namespace s)"
    and "returns (DecrementCRDTotal crdType namespace s)"
    by (simp_all add: CRDTotal_valid)
next
  assume "utf8_ValidString version \<and> utf8_ValidString gitCommit \<and> utf8_ValidString goVersion \<and>
    utf8_ValidString goos \<and> utf8_ValidString goarch"
  then show "returns (RecordBuildInfo version gitCommit goVersion goos goarch s)"
    by (simp add: RecordBuildInfo_valid)
qed

theorem recording_returns_unless_write_rejected_witness:
  "\<not> valid_label_tuple [CHR 0xFF] ''obj1'' ''scaler-a'' ''queueLength'' \<and>
   RecordScalerError [CHR 0xFF] ''obj1'' ''scaler-a'' 0 ''queueLength'' None
       ScaledObjectResource registered =
     Inr (registered\<lparr>logged := [(ErrInvalidUTF8, unable_to_write)]\<rparr>) \<and>
   RecordScaledObjectError [CHR 0xFF] ''obj1'' None ScaledJobResource registered =
     Inr (registered\<lparr>logged := [(ErrInvalidUTF8, unable_to_write)]\<rparr>) \<and>
   RecordScaledObjectError [CHR 0xFF] ''obj1'' (Some (GoError ''timeout'')) ScaledJobResource
       registered = Inl (Panic ErrInvalidUTF8) \<and>
   valid_label_tuple ''ns1'' ''obj1'' ''scaler-a'' ''queueLength'' \<and>
   returns (RecordScalerError ''ns1'' ''obj1'' ''scaler-a'' 0 ''queueLength''
              (Some (GoError ''timeout'')) ScaledObjectResource registered) \<and>
   returns (RecordScalerLatency ''ns1'' ''obj1'' ''scaler-a'' 0 ''queueLength'' 42
              ScaledObjectResource registered) \<and>
   returns (RecordScalableObjectLatency ''ns1'' ''obj1'' True 42 registered) \<and>
   utf8_ValidString ''kafka'' \<and> returns (IncrementTriggerTotal ''kafka'' registered) \<and>
   utf8_ValidString ''Foo'' \<and> utf8_ValidString ''ns1'' \<and>
   returns (DecrementCRDTotal ''Foo'' ''ns1'' registered) \<and>
   utf8_ValidString ''2.10.0'' \<and> utf8_ValidString ''abc123'' \<and> utf8_ValidString ''go1.20'' \<and>
   utf8_ValidString ''linux'' \<and> utf8_ValidString ''amd64'' \<and>
   returns (RecordBuildInfo ''2.10.0'' ''abc123'' ''go1.20'' ''linux'' ''amd64'' registered)"
proof -
  have v: "utf8_ValidString ''kafka''" "utf8_ValidString ''Foo''" "utf8_ValidString ''ns1''"
    "utf8_ValidString ''2.10.0''" "utf8_ValidString ''abc123''" "utf8_ValidString ''go1.20''"
    "utf8_ValidString ''linux''" "utf8_ValidString ''amd64''"
    by (simp_all add: utf8_ValidString_def)
  have l: "logged registered = []"
    by (simp add: registered_def)
  note rejected_object = recording_returns_unless_write_rejected
    [where namespace = "[CHR 0xFF]" and scaledResource = "''obj1''" and scaler = "''scaler-a''"
       and scalerIndex = 0 and metric = "''queueLength''"
       and resourceType = ScaledObjectResource and s = registered]
  note rejected_job = recording_returns_unless_write_rejected
    [where namespace = "[CHR 0xFF]" and scaledResource = "''obj1''" and scaler = "''scaler-a''"
       and scalerIndex = 0 and metric = "''queueLength''"
       and resourceType = ScaledJobResource and s = registered
       and e = "GoError ''timeout''"]
  note accepted = recording_returns_unless_write_rejected
    [where namespace = "''ns1''" and scaledResource = "''obj1''" and scaler = "''scaler-a''"
       and scalerIndex = 0 and metric = "''queueLength''"
       and resourceType = ScaledObjectResource and s = registered
       and err = "Some (GoError ''timeout'')" and x = 42 and isScaledObject = True
       and triggerType = "''kafka''" and crdType = "''Foo''" and version = "''2.10.0''"
       and gitCommit = "''abc123''" and goVersion = "''go1.20''" and goos = "''linux''"
       and goarch = "''amd64''"]
  show ?thesis
    using rejected_object rejected_job accepted
    by (simp add: v l not_valid_tuple_FF not_valid_FF valid_scenario_tuple)
qed

end
